theory Spec2Isabelle
  imports Main
begin

section \<open>The command line client and the shell, as the scripts see them\<close>

text \<open>
  The query-running code of the repository is shell: every engine operation is one call of
  the \<^verbatim>\<open>aws\<close> command line client inside a command substitution \<^verbatim>\<open>$(...)\<close>. A call
  either prints its answer, which the substitution captures, or fails with a non-zero
  status and prints nothing on standard output. A call is therefore modelled by a
  \<open>string option\<close>: \<open>Some s\<close> is the captured text, \<open>None\<close> is a failed call.
\<close>

definition captured :: "string option \<Rightarrow> string" where
  "captured answer = (case answer of None \<Rightarrow> [] | Some s \<Rightarrow> s)"

text \<open>
  \<^verbatim>\<open>ResultSet\<close> as \<^verbatim>\<open>aws athena get-query-results\<close> delivers it: the names of
  \<^verbatim>\<open>ResultSetMetadata.ColumnInfo\<close> and the list \<^verbatim>\<open>Rows\<close>, each row the list of its
  \<^verbatim>\<open>VarCharValue\<close>s. The client follows continuation tokens by itself; no script of the
  repository ever reads or passes one.
\<close>

record result_set =
  column_names :: "string list"
  rows :: "string list list"

text \<open>
  The remote engine, for one execution. \<open>get_state e k\<close> is the answer to the status query
  issued after \<open>k\<close> earlier ones; the other fields answer
  \<^verbatim>\<open>start-query-execution\<close>, the \<^verbatim>\<open>StateChangeReason\<close> query and
  \<^verbatim>\<open>get-query-results\<close>. \<open>render_table\<close> is the client's \<^verbatim>\<open>--output table\<close> layout.
\<close>

record engine =
  start_query_execution :: "string \<Rightarrow> string option"
  get_state :: "nat \<Rightarrow> string option"
  get_state_change_reason :: "string option"
  get_query_results :: "result_set option"
  render_table :: "string list \<Rightarrow> string"

text \<open>
  What a run prints (the decorative symbol at the head of each line is left out):
  each constructor is one \<^verbatim>\<open>echo\<close> of \<^verbatim>\<open>execute_query\<close> or of the test-query block of
  \<^verbatim>\<open>validate-athena.sh\<close>, or one \<^verbatim>\<open>log_...\<close> call of \<^verbatim>\<open>test_athena_workgroup\<close>.
\<close>

datatype msg =
    MsgTesting string                \<comment> \<open>\<^verbatim>\<open>Testing: $description\<close>\<close>
  | MsgQuery string                  \<comment> \<open>\<^verbatim>\<open>Query: $query\<close>\<close>
  | MsgStartFailed                   \<comment> \<open>\<^verbatim>\<open>Failed to start query execution\<close>\<close>
  | MsgExecutionId string            \<comment> \<open>\<^verbatim>\<open>Execution ID: $execution_id\<close>\<close>
  | MsgCompleted                     \<comment> \<open>\<^verbatim>\<open>Query completed successfully\<close>\<close>
  | MsgColumns nat                   \<comment> \<open>\<^verbatim>\<open>Columns returned: N columns\<close>\<close>
  | MsgRows int                      \<comment> \<open>\<^verbatim>\<open>Rows returned: N data rows (plus header)\<close>\<close>
  | MsgFailed string                 \<comment> \<open>\<^verbatim>\<open>Query failed: $error_message\<close>\<close>
  | MsgCancelled                     \<comment> \<open>\<^verbatim>\<open>Query was cancelled\<close>\<close>
  | MsgStatus string nat nat         \<comment> \<open>\<^verbatim>\<open>Query status: $status (attempt A/M)\<close>\<close>
  | MsgUnknown string                \<comment> \<open>\<^verbatim>\<open>Unknown status: $status\<close>\<close>
  | MsgTimedOut nat                  \<comment> \<open>\<^verbatim>\<open>Query timed out after M attempts\<close>\<close>
  | MsgBlank                         \<comment> \<open>\<^verbatim>\<open>echo ""\<close>\<close>
  | MsgTestCompleted                 \<comment> \<open>\<^verbatim>\<open>Test query completed successfully\<close>\<close>
  | MsgQueryResults                  \<comment> \<open>\<^verbatim>\<open>Query results:\<close>\<close>
  | MsgResults "string list"         \<comment> \<open>the values of all rows, printed by the client itself\<close>
  | MsgFailedWithStatus string       \<comment> \<open>\<^verbatim>\<open>Test query failed with status: $STATUS\<close>\<close>
  | MsgReason string                 \<comment> \<open>the \<^verbatim>\<open>StateChangeReason\<close>, printed by the client itself\<close>
  | MsgWaiting string nat            \<comment> \<open>\<^verbatim>\<open>Query status: $STATUS (i/30)\<close>\<close>
  | MsgTimeout30                     \<comment> \<open>\<^verbatim>\<open>Query timeout after 30 seconds\<close>\<close>
  | MsgTestStarted string            \<comment> \<open>\<^verbatim>\<open>Test query started: $execution_id\<close>\<close>
  | MsgTestFailed                    \<comment> \<open>\<^verbatim>\<open>Test query failed\<close>\<close>
  | MsgTestCancelled                 \<comment> \<open>\<^verbatim>\<open>Test query was cancelled\<close>\<close>
  | MsgUnknownQueryStatus string     \<comment> \<open>\<^verbatim>\<open>Unknown query status: $status\<close>\<close>
  | MsgStartTestFailed               \<comment> \<open>\<^verbatim>\<open>Failed to start test query\<close>\<close>

text \<open>
  The trace of a run: client calls (a status query records the answer it got), waits and
  printed lines, in program order.
\<close>

datatype event =
    StartQuery string
  | StateQuery string "string option"
  | ReasonQuery string
  | ResultsQuery string
  | Sleep nat
  | Echo msg

text \<open>
  How a run ends: the function returns a status, or the whole shell exits because a command
  failed while \<^verbatim>\<open>set -e\<close> is in force.
\<close>

datatype finish = Return nat | Errexit

datatype step = Continue | Stop finish

text \<open>
  \<^verbatim>\<open>((attempt++))\<close> is an arithmetic command: its exit status is 1 when the expression
  evaluates to 0, and the post-increment evaluates to the old value, so the command fails
  exactly when the counter was 0. With \<^verbatim>\<open>set -e\<close> a failing command ends the shell,
  unless it stands in the condition of an \<^verbatim>\<open>if\<close> or a \<^verbatim>\<open>while\<close> or in a
  \<^verbatim>\<open>&&\<close>/\<^verbatim>\<open>||\<close> list; the increment stands in the body of the loop, and
  \<^verbatim>\<open>execute_query\<close> is called as a plain command (lines 292, 315, 336 and 351 of
  \<^verbatim>\<open>validate-athena.sh\<close>). The query validation script sets \<^verbatim>\<open>set -e\<close> in line 151.
  The functions below take the setting as their first argument \<open>errexit\<close>: \<open>True\<close> is the
  script as it is written, \<open>False\<close> is the same code in a shell without the option.
  \<open>post_increment errexit attempt\<close> is what happens after the increment.
\<close>

definition post_increment :: "bool \<Rightarrow> nat \<Rightarrow> step" where
  "post_increment errexit attempt = (if errexit \<and> attempt = 0 then Stop Errexit else Continue)"

text \<open>
  A command substitution \<^verbatim>\<open>$(...)\<close> drops every newline at the end of what the command
  printed.
\<close>

definition command_substitution :: "string \<Rightarrow> string" where
  "command_substitution printed = rev (dropWhile (\<lambda>c. c = CHR 0x0A) (rev printed))"

text \<open>
  \<^verbatim>\<open>echo "$text"\<close> prints the text and a newline, unless the text is itself an option of
  \<^verbatim>\<open>echo\<close>, a dash followed by one or more of the letters \<^verbatim>\<open>n\<close>, \<^verbatim>\<open>e\<close>, \<^verbatim>\<open>E\<close>: then
  nothing of it is printed, and with \<^verbatim>\<open>n\<close> among the letters no newline either.
  \<^verbatim>\<open>wc -l\<close> counts the newlines of its input.
\<close>

definition echo_option :: "string \<Rightarrow> bool" where
  "echo_option text =
     (case text of
        [] \<Rightarrow> False
      | c # letters \<Rightarrow>
          c = CHR ''-'' \<and> letters \<noteq> [] \<and> filter (\<lambda>l. l \<notin> set ''neE'') letters = [])"

definition echo :: "string \<Rightarrow> string" where
  "echo text =
     (if echo_option text then (if CHR ''n'' \<in> set text then [] else [CHR 0x0A])
      else text @ [CHR 0x0A])"

definition wc_l :: "string \<Rightarrow> nat" where
  "wc_l input = length (filter (\<lambda>c. c = CHR 0x0A) input)"

section \<open>\<^verbatim>\<open>execute_query\<close> of the query validation script\<close>

definition max_attempts :: nat where
  "max_attempts = 30"

text \<open>
  The \<^verbatim>\<open>SUCCEEDED\<close> branch (lines 204-222): two \<^verbatim>\<open>get-query-results\<close> calls, the first
  for the column names as a table, the second for \<^verbatim>\<open>length(ResultSet.Rows)\<close>. Both are
  \<^verbatim>\<open>local x=$(...)\<close>, so a failed call leaves the variable empty and nothing else happens;
  an empty \<^verbatim>\<open>row_count\<close> counts as 0 in the arithmetic \<^verbatim>\<open>$((row_count - 1))\<close>. The
  table is what the client prints, less the newlines at its end, and the number of columns
  reported is \<^verbatim>\<open>$(echo "$result_info" | wc -l)\<close>.
\<close>

definition row_count :: "result_set option \<Rightarrow> int" where
  "row_count answer = (case answer of None \<Rightarrow> 0 | Some rs \<Rightarrow> int (length (rows rs)))"

definition data_rows :: "result_set option \<Rightarrow> int" where
  "data_rows answer = row_count answer - 1"

definition result_info :: "engine \<Rightarrow> string" where
  "result_info e =
     (case get_query_results e of
        None \<Rightarrow> []
      | Some rs \<Rightarrow> command_substitution (render_table e (column_names rs)))"

definition report_results :: "engine \<Rightarrow> string \<Rightarrow> event list" where
  "report_results e execution_id =
     [Echo MsgCompleted,
      ResultsQuery execution_id,
      ResultsQuery execution_id,
      Echo (MsgColumns (wc_l (echo (result_info e)))),
      Echo (MsgRows (data_rows (get_query_results e))),
      Echo MsgBlank]"

text \<open>
  One pass through the body of the \<^verbatim>\<open>while\<close> loop (lines 196-248). The status query is a
  plain assignment \<^verbatim>\<open>status=$(...)\<close>: when the call fails the variable is empty, and under
  \<^verbatim>\<open>set -e\<close> the shell exits.
\<close>

definition poll_iteration :: "bool \<Rightarrow> engine \<Rightarrow> string \<Rightarrow> nat \<Rightarrow> event list \<times> step" where
  "poll_iteration errexit e execution_id attempt =
     (let answer = get_state e attempt;
          status = captured answer;
          query = StateQuery execution_id answer
      in
        if errexit \<and> answer = None then ([query], Stop Errexit)
        else if status = ''SUCCEEDED'' then
          (query # report_results e execution_id, Stop (Return 0))
        else if status = ''FAILED'' then
          ([query, ReasonQuery execution_id,
            Echo (MsgFailed (captured (get_state_change_reason e))), Echo MsgBlank],
           Stop (Return 1))
        else if status = ''CANCELLED'' then
          ([query, Echo MsgCancelled, Echo MsgBlank], Stop (Return 1))
        else if status = ''RUNNING'' \<or> status = ''QUEUED'' then
          ([query, Echo (MsgStatus status (attempt + 1) max_attempts), Sleep 2],
           post_increment errexit attempt)
        else
          ([query, Echo (MsgUnknown status)], post_increment errexit attempt))"

text \<open>
  The loop \<^verbatim>\<open>while [ $attempt -lt $max_attempts ]\<close> and what follows it (lines 195-253).
  \<open>attempt\<close> goes up by one in every pass that does not leave the function, so it is also
  the number of status queries issued so far.
\<close>

function poll_loop :: "bool \<Rightarrow> engine \<Rightarrow> string \<Rightarrow> nat \<Rightarrow> event list \<times> finish" where
  "poll_loop errexit e execution_id attempt =
     (if attempt < max_attempts then
        (case poll_iteration errexit e execution_id attempt of
           (evs, Stop fin) \<Rightarrow> (evs, fin)
         | (evs, Continue) \<Rightarrow>
             (case poll_loop errexit e execution_id (Suc attempt) of
                (rest, fin) \<Rightarrow> (evs @ rest, fin)))
      else ([Echo (MsgTimedOut max_attempts), Echo MsgBlank], Return 1))"
  by pat_completeness auto
termination
  by (relation "measure (\<lambda>(errexit, e, execution_id, attempt). max_attempts - attempt)") auto

declare poll_loop.simps [simp del]

definition execute_query :: "bool \<Rightarrow> engine \<Rightarrow> string \<Rightarrow> string \<Rightarrow> event list \<times> finish" where
  "execute_query errexit e query description =
     (let execution_id = captured (start_query_execution e query);
          opening = [Echo (MsgTesting description), Echo (MsgQuery query), StartQuery query]
      in
        if execution_id = [] then (opening @ [Echo MsgStartFailed], Return 1)
        else
          (case poll_loop errexit e execution_id 0 of
             (evs, fin) \<Rightarrow> (opening @ Echo (MsgExecutionId execution_id) # evs, fin)))"

section \<open>The test query of the Athena validation script\<close>

text \<open>
  Lines 91-124 of \<^verbatim>\<open>validate-athena.sh\<close>: \<^verbatim>\<open>for i in {1..30}\<close>, one status query per pass,
  \<^verbatim>\<open>break\<close> on a terminal status, \<^verbatim>\<open>sleep 1\<close> on anything else. The script runs under
  \<^verbatim>\<open>set -e\<close> (line 6); here the client prints results and reason itself, so a failed call
  is a failed command. A pass ends by going round again, by \<^verbatim>\<open>break\<close>, or with the
  shell's exit.
\<close>

datatype pass = Next | Break | Abort

definition failed_command :: "bool \<Rightarrow> pass" where
  "failed_command errexit = (if errexit then Abort else Break)"

definition test_query_pass :: "bool \<Rightarrow> engine \<Rightarrow> string \<Rightarrow> nat \<Rightarrow> event list \<times> pass" where
  "test_query_pass errexit e execution_id i =
     (let answer = get_state e (i - 1);
          status = captured answer;
          query = StateQuery execution_id answer
      in
        if errexit \<and> answer = None then ([query], Abort)
        else if status = ''SUCCEEDED'' then
          (case get_query_results e of
             None \<Rightarrow>
               ([query, Echo MsgTestCompleted, Echo MsgQueryResults, ResultsQuery execution_id],
                failed_command errexit)
           | Some rs \<Rightarrow>
               ([query, Echo MsgTestCompleted, Echo MsgQueryResults, ResultsQuery execution_id,
                 Echo (MsgResults (concat (rows rs)))],
                Break))
        else if status = ''FAILED'' \<or> status = ''CANCELLED'' then
          (case get_state_change_reason e of
             None \<Rightarrow>
               ([query, Echo (MsgFailedWithStatus status), ReasonQuery execution_id],
                failed_command errexit)
           | Some reason \<Rightarrow>
               ([query, Echo (MsgFailedWithStatus status), ReasonQuery execution_id,
                 Echo (MsgReason reason)],
                Break))
        else ([query, Echo (MsgWaiting status i), Sleep 1], Next))"

text \<open>
  The loop returns the trace, the value \<open>i\<close> is left with, and whether the shell is still
  running. After the loop \<^verbatim>\<open>[ $i -eq 30 ]\<close> decides whether the timeout line is printed.
\<close>

function test_query_loop :: "bool \<Rightarrow> engine \<Rightarrow> string \<Rightarrow> nat \<Rightarrow> event list \<times> nat \<times> bool" where
  "test_query_loop errexit e execution_id i =
     (case test_query_pass errexit e execution_id i of
        (evs, Abort) \<Rightarrow> (evs, i, False)
      | (evs, Break) \<Rightarrow> (evs, i, True)
      | (evs, Next) \<Rightarrow>
          (if i < 30 then
             (case test_query_loop errexit e execution_id (Suc i) of
                (rest, left) \<Rightarrow> (evs @ rest, left))
           else (evs, i, True)))"
  by pat_completeness auto
termination
  by (relation "measure (\<lambda>(errexit, e, execution_id, i). 30 - i)") auto

declare test_query_loop.simps [simp del]

definition test_query_wait :: "bool \<Rightarrow> engine \<Rightarrow> string \<Rightarrow> event list \<times> bool" where
  "test_query_wait errexit e execution_id =
     (case test_query_loop errexit e execution_id 1 of
        (evs, i, running) \<Rightarrow>
          (if running \<and> i = 30 then (evs @ [Echo MsgTimeout30], True) else (evs, running)))"

section \<open>\<^verbatim>\<open>test_athena_workgroup\<close> and \<^verbatim>\<open>test_data_queries\<close> of the deployment validation script\<close>

text \<open>
  The test query of \<^verbatim>\<open>test_athena_workgroup\<close> (the deployment validation script printed
  in \<^verbatim>\<open>README.md\<close>, lines 669-719; the checks of the work group that come before it are
  left out). Every client call is \<^verbatim>\<open>$(aws ... 2>/dev/null || echo "WORD")\<close>, so a failed
  call yields the word, and the counter is advanced by the assignment
  \<^verbatim>\<open>attempt=$((attempt + 1))\<close>, which always succeeds: \<^verbatim>\<open>set -e\<close> plays no part in
  this loop. When the attempts are used up the loop just ends; nothing is printed.
\<close>

definition or_echo :: "string option \<Rightarrow> string \<Rightarrow> string" where
  "or_echo answer word = (case answer of None \<Rightarrow> word | Some s \<Rightarrow> s)"

definition workgroup_max_attempts :: nat where
  "workgroup_max_attempts = 15"

definition workgroup_pass :: "engine \<Rightarrow> string \<Rightarrow> nat \<Rightarrow> event list \<times> pass" where
  "workgroup_pass e execution_id attempt =
     (let answer = get_state e attempt;
          status = or_echo answer ''ERROR'';
          query = StateQuery execution_id answer
      in
        if status = ''SUCCEEDED'' then ([query, Echo MsgTestCompleted], Break)
        else if status = ''FAILED'' then ([query, Echo MsgTestFailed], Break)
        else if status = ''CANCELLED'' then ([query, Echo MsgTestCancelled], Break)
        else if status = ''RUNNING'' \<or> status = ''QUEUED'' then ([query, Sleep 2], Next)
        else ([query, Echo (MsgUnknownQueryStatus status)], Break))"

function workgroup_loop :: "engine \<Rightarrow> string \<Rightarrow> nat \<Rightarrow> event list" where
  "workgroup_loop e execution_id attempt =
     (if attempt < workgroup_max_attempts then
        (case workgroup_pass e execution_id attempt of
           (evs, Next) \<Rightarrow> evs @ workgroup_loop e execution_id (Suc attempt)
         | (evs, _) \<Rightarrow> evs)
      else [])"
  by pat_completeness auto
termination
  by (relation "measure (\<lambda>(e, execution_id, attempt). workgroup_max_attempts - attempt)") auto

declare workgroup_loop.simps [simp del]

definition test_athena_workgroup :: "engine \<Rightarrow> string \<Rightarrow> event list" where
  "test_athena_workgroup e test_query =
     (let execution_id = or_echo (start_query_execution e test_query) ''FAILED''
      in
        if execution_id \<noteq> ''FAILED'' then
          StartQuery test_query # Echo (MsgTestStarted execution_id)
            # workgroup_loop e execution_id 0
        else [StartQuery test_query, Echo MsgStartTestFailed])"

text \<open>
  \<^verbatim>\<open>test_data_queries\<close> reads the count of a table from
  \<^verbatim>\<open>ResultSet.Rows[1].Data[0].VarCharValue\<close> (lines 777-782): the second row, whatever
  the first one holds. The client prints \<^verbatim>\<open>None\<close> for a missing element, and a failed
  call is replaced by \<^verbatim>\<open>0\<close>.
\<close>

definition count_cell :: "result_set option \<Rightarrow> string" where
  "count_cell answer =
     (case answer of
        None \<Rightarrow> ''0''
      | Some rs \<Rightarrow>
          (if 1 < length (rows rs) \<and> rows rs ! 1 \<noteq> [] then rows rs ! 1 ! 0 else ''None''))"

section \<open>Reading a trace\<close>

fun is_state_query :: "event \<Rightarrow> bool" where
  "is_state_query (StateQuery _ _) = True"
| "is_state_query _ = False"

fun is_results_query :: "event \<Rightarrow> bool" where
  "is_results_query (ResultsQuery _) = True"
| "is_results_query _ = False"

definition state_queries :: "event list \<Rightarrow> nat" where
  "state_queries tr = length (filter is_state_query tr)"

definition results_queries :: "event list \<Rightarrow> nat" where
  "results_queries tr = length (filter is_results_query tr)"

definition terminal_status :: "string \<Rightarrow> bool" where
  "terminal_status status =
     (status = ''SUCCEEDED'' \<or> status = ''FAILED'' \<or> status = ''CANCELLED'')"

definition in_progress :: "string \<Rightarrow> bool" where
  "in_progress status = (status = ''RUNNING'' \<or> status = ''QUEUED'')"

definition known_status :: "string \<Rightarrow> bool" where
  "known_status status = (terminal_status status \<or> in_progress status)"

text \<open>
  The events at which an execution has reached a terminal state: a status query answered
  with a terminal engine status, or the line that reports the timeout.
\<close>

fun terminal_event :: "event \<Rightarrow> bool" where
  "terminal_event (StateQuery _ answer) = terminal_status (captured answer)"
| "terminal_event (Echo (MsgTimedOut _)) = True"
| "terminal_event _ = False"


fun pauses :: "event list \<Rightarrow> nat list" where
  "pauses [] = []"
| "pauses (Sleep n # tr) = n # pauses tr"
| "pauses (_ # tr) = pauses tr"

definition until_next_poll :: "event list \<Rightarrow> event list" where
  "until_next_poll tr = takeWhile (\<lambda>ev. \<not> is_state_query ev) tr"

text \<open>
  \<open>evenly_spaced waits interval tr\<close>: after every status query of \<open>tr\<close> whose answer is a
  status for which \<open>waits\<close> holds, exactly one wait of \<open>interval\<close> seconds happens before
  the next status query (or before the end of the trace).
\<close>

fun evenly_spaced :: "(string \<Rightarrow> bool) \<Rightarrow> nat \<Rightarrow> event list \<Rightarrow> bool" where
  "evenly_spaced waits interval [] = True"
| "evenly_spaced waits interval (StateQuery _ answer # tr) =
     ((if waits (captured answer) then pauses (until_next_poll tr) = [interval] else True)
      \<and> evenly_spaced waits interval tr)"
| "evenly_spaced waits interval (_ # tr) = evenly_spaced waits interval tr"

text \<open>
  \<open>waits_between_polls interval tr\<close>: between any two consecutive status queries of
  \<open>tr\<close> exactly one wait of \<open>interval\<close> seconds happens, whatever the first of the two was
  answered.
\<close>

fun waits_between_polls :: "nat \<Rightarrow> event list \<Rightarrow> bool" where
  "waits_between_polls interval [] = True"
| "waits_between_polls interval (StateQuery _ _ # tr) =
     ((if filter is_state_query tr = [] then True
       else pauses (until_next_poll tr) = [interval])
      \<and> waits_between_polls interval tr)"
| "waits_between_polls interval (_ # tr) = waits_between_polls interval tr"

text \<open>
  The rule of the specification for the duplicated header, in its own words: the first row
  is dropped when its values equal the column names positionally, and no row otherwise.
\<close>

definition spec_drop_duplicate_header :: "string list \<Rightarrow> string list list \<Rightarrow> string list list" where
  "spec_drop_duplicate_header names rs =
     (case rs of [] \<Rightarrow> [] | first # rest \<Rightarrow> if first = names then rest else rs)"

text \<open>
  An engine for concrete runs: it accepts every query under the id \<^verbatim>\<open>qid-1\<close>, answers
  the status queries with the given list and with \<open>later\<close> once the list is used up, and
  lays a table out one name per line.
\<close>

definition scripted_engine ::
  "string list \<Rightarrow> string \<Rightarrow> string option \<Rightarrow> result_set option \<Rightarrow> engine" where
  "scripted_engine statuses later reason results =
     \<lparr>start_query_execution = (\<lambda>query. Some ''qid-1''),
      get_state = (\<lambda>k. Some (if k < length statuses then statuses ! k else later)),
      get_state_change_reason = reason,
      get_query_results = results,
      render_table = (\<lambda>names. concat (map (\<lambda>name. name @ [CHR 0x0A]) names))\<rparr>"

section \<open>The named queries of \<^verbatim>\<open>AthenaStack\<close>\<close>

text \<open>
  JavaScript's \<^verbatim>\<open>String.prototype.trim\<close> on the characters a \<open>string\<close> of bytes can hold,
  a template literal as the lines between its backquotes, and \<^verbatim>\<open>Number.prototype.toString\<close>
  on a natural number.
\<close>

definition is_whitespace :: "char \<Rightarrow> bool" where
  "is_whitespace c = (c \<in> set [CHR 0x20, CHR 0x09, CHR 0x0A, CHR 0x0B, CHR 0x0C, CHR 0x0D])"

definition trim :: "string \<Rightarrow> string" where
  "trim s = rev (dropWhile is_whitespace (rev (dropWhile is_whitespace s)))"

fun template_literal :: "string list \<Rightarrow> string" where
  "template_literal [] = []"
| "template_literal [line] = line"
| "template_literal (line # rest) = line @ CHR 0x0A # template_literal rest"

definition digit :: "nat \<Rightarrow> char" where
  "digit d = ''0123456789'' ! d"

function toString :: "nat \<Rightarrow> string" where
  "toString n = (if n < 10 then [digit n] else toString (n div 10) @ [digit (n mod 10)])"
  by pat_completeness auto
termination
  by (relation "measure id") auto

declare toString.simps [simp del]

record cfn_work_group =
  wg_name :: string
  wg_description :: string
  wg_state :: string
  wg_outputLocation :: string
  wg_enforceWorkGroupConfiguration :: bool
  wg_bytesScannedCutoffPerQuery :: nat

record cfn_named_query =
  nq_name :: string
  nq_description :: string
  nq_database :: string
  nq_workGroup :: string
  nq_queryString :: string

record athena_stack_props =
  dataBucket_bucketName :: string
  glueDatabase_ref :: string

record athena_stack =
  workGroup :: cfn_work_group
  namedQueries :: "cfn_named_query list"

definition topOrdersQuery_template :: "string list" where
  "topOrdersQuery_template =
     ['''',
      ''-- Top 10 orders by order_total'',
      ''-- Shows the highest value orders with customer and date information'',
      ''SELECT '',
      ''    o.order_id,'',
      ''    o.customer_id,'',
      ''    c.customer_name,'',
      ''    c.email,'',
      ''    o.order_date,'',
      ''    o.order_total,'',
      ''    o.status'',
      ''FROM orders o'',
      ''JOIN customers c ON o.customer_id = c.customer_id'',
      ''ORDER BY o.order_total DESC'',
      ''LIMIT 10;'',
      ''      '']"

definition returnsByCustomerQuery_template :: "string list" where
  "returnsByCustomerQuery_template =
     ['''',
      ''-- Returns by customer (LEFT JOIN)'',
      ''-- Shows all customers and their return information (if any)'',
      ''-- Includes customers who haven't made returns'',
      ''SELECT '',
      ''    c.customer_id,'',
      ''    c.customer_name,'',
      ''    c.email,'',
      ''    c.registration_date,'',
      ''    r.return_id,'',
      ''    r.order_id,'',
      ''    r.return_date,'',
      ''    r.return_reason,'',
      ''    r.refund_amount,'',
      ''    CASE '',
      ''        WHEN r.return_id IS NOT NULL THEN 'Has Returns'' @ [CHR 0x27],
      ''        ELSE 'No Returns'' @ [CHR 0x27],
      ''    END AS return_status'',
      ''FROM customers c'',
      ''LEFT JOIN orders o ON c.customer_id = o.customer_id'',
      ''LEFT JOIN returns r ON o.order_id = r.order_id'',
      ''ORDER BY c.customer_name, r.return_date DESC;'',
      ''      '']"

definition returnedOrdersQuery_template :: "string list" where
  "returnedOrdersQuery_template =
     ['''',
      ''-- Orders that were returned'',
      ''-- Shows only orders that have corresponding returns'',
      ''-- Includes return details and financial impact'',
      ''SELECT '',
      ''    o.order_id,'',
      ''    o.customer_id,'',
      ''    c.customer_name,'',
      ''    o.order_date,'',
      ''    o.order_total,'',
      ''    o.status AS order_status,'',
      ''    r.return_id,'',
      ''    r.return_date,'',
      ''    r.return_reason,'',
      ''    r.refund_amount,'',
      ''    (o.order_total - r.refund_amount) AS net_revenue,'',
      ''    ROUND((r.refund_amount / o.order_total) * 100, 2) AS return_percentage'',
      ''FROM orders o'',
      ''INNER JOIN returns r ON o.order_id = r.order_id'',
      ''INNER JOIN customers c ON o.customer_id = c.customer_id'',
      ''ORDER BY o.order_date DESC, r.return_date DESC;'',
      ''      '']"

definition lean_analytics_work_group :: "athena_stack_props \<Rightarrow> cfn_work_group" where
  "lean_analytics_work_group props =
     \<lparr>wg_name = ''lean_demo_wg'',
      wg_description =
        ''WorkGroup for lean analytics demo queries with result location and cost controls'',
      wg_state = ''ENABLED'',
      wg_outputLocation = ''s3://'' @ dataBucket_bucketName props @ ''/athena-results/'',
      wg_enforceWorkGroupConfiguration = True,
      wg_bytesScannedCutoffPerQuery = 100 * 1024 * 1024\<rparr>"

definition topOrdersQuery :: "athena_stack_props \<Rightarrow> cfn_named_query" where
  "topOrdersQuery props =
     \<lparr>nq_name = ''top_10_orders_by_total'',
      nq_description = ''Top 10 orders by order_total - Shows highest value orders'',
      nq_database = glueDatabase_ref props,
      nq_workGroup = wg_name (lean_analytics_work_group props),
      nq_queryString = trim (template_literal topOrdersQuery_template)\<rparr>"

definition returnsByCustomerQuery :: "athena_stack_props \<Rightarrow> cfn_named_query" where
  "returnsByCustomerQuery props =
     \<lparr>nq_name = ''returns_by_customer'',
      nq_description =
        ''Returns by customer using LEFT JOIN - Shows all customers and their returns if any'',
      nq_database = glueDatabase_ref props,
      nq_workGroup = wg_name (lean_analytics_work_group props),
      nq_queryString = trim (template_literal returnsByCustomerQuery_template)\<rparr>"

definition returnedOrdersQuery :: "athena_stack_props \<Rightarrow> cfn_named_query" where
  "returnedOrdersQuery props =
     \<lparr>nq_name = ''orders_that_were_returned'',
      nq_description =
        ''Orders that were returned using INNER JOIN - Shows only orders with returns'',
      nq_database = glueDatabase_ref props,
      nq_workGroup = wg_name (lean_analytics_work_group props),
      nq_queryString = trim (template_literal returnedOrdersQuery_template)\<rparr>"

definition AthenaStack :: "athena_stack_props \<Rightarrow> athena_stack" where
  "AthenaStack props =
     \<lparr>workGroup = lean_analytics_work_group props,
      namedQueries =
        [topOrdersQuery props, returnsByCustomerQuery props, returnedOrdersQuery props]\<rparr>"

text \<open>
  The two outputs the application adds to the stack (\<^verbatim>\<open>bin/app.ts\<close>):
  \<^verbatim>\<open>athenaStack.workGroup.name || 'lean_demo_wg'\<close> and
  \<^verbatim>\<open>athenaStack.namedQueries.length.toString()\<close>.
\<close>

definition AthenaWorkGroupName :: "athena_stack \<Rightarrow> string" where
  "AthenaWorkGroupName stack =
     (if wg_name (workGroup stack) = [] then ''lean_demo_wg'' else wg_name (workGroup stack))"

definition NamedQueriesCount :: "athena_stack \<Rightarrow> string" where
  "NamedQueriesCount stack = toString (length (namedQueries stack))"

section \<open>The dispatcher and the facade of the query server\<close>

text \<open>
  The server that answers \<^verbatim>\<open>POST /api/query\<close> (\<^verbatim>\<open>ui/server.js\<close>) is not among the
  sources; only its callers are (\<^verbatim>\<open>test-api.sh\<close> and the local development test, which
  post \<^verbatim>\<open>{"sql": ""}\<close> and an unknown \<^verbatim>\<open>namedQueryId\<close> and expect a rejection). Its
  request validation is therefore taken from the specification.
\<close>

datatype query_request = Custom string | Named string

record named_query_entry =
  entry_id :: string
  entry_displayName :: string
  entry_description :: string
  entry_sqlTemplate :: string

datatype error_kind =
  InvalidRequest | NotFound | EngineFailure | Cancelled | TimedOut | TransportError | UnknownState

datatype 'r query_outcome = Success 'r | Failure error_kind string

datatype engine_call =
    Submit string
  | GetStatus string
  | GetResults string "string option"
  | CancelExecution string

text \<open>
  Modelled from the spec: the Submission Dispatcher of \<^verbatim>\<open>ui/server.js\<close> (section 4.1). A
  named request is looked up in the catalog and fails with \<open>NotFound\<close> when the id is
  absent; a custom request must be non-empty after trimming and at most the configured
  maximum long, and fails with \<open>InvalidRequest\<close> otherwise.
\<close>

definition dispatch ::
  "(string \<rightharpoonup> named_query_entry) \<Rightarrow> nat \<Rightarrow> query_request \<Rightarrow> error_kind + string" where
  "dispatch catalog max_length request =
     (case request of
        Named query_id \<Rightarrow>
          (case catalog query_id of
             None \<Rightarrow> Inl NotFound
           | Some entry \<Rightarrow> Inr (entry_sqlTemplate entry))
      | Custom sql \<Rightarrow>
          (if trim sql \<noteq> [] \<and> length sql \<le> max_length then Inr sql
           else Inl InvalidRequest))"

text \<open>
  Modelled from the spec: the Orchestration Facade of \<^verbatim>\<open>ui/server.js\<close> (section 4.5),
  \<open>execute\<close>, which runs the dispatcher, then the submission to the engine, then the poller
  and the normalizer. The stages after the dispatcher are the collaborators: \<open>submit\<close>
  returns the execution handle (\<open>None\<close> when the engine cannot be reached),
  \<open>await_results\<close> is the poller followed by the normalizer, with the engine calls they
  make, and \<open>message\<close> is the text that goes with an error kind. The result is the outcome
  and the engine calls made on the way.
\<close>

record 'r collaborators =
  submit :: "string \<Rightarrow> string option"
  await_results :: "string \<Rightarrow> 'r query_outcome \<times> engine_call list"
  message :: "error_kind \<Rightarrow> string"

definition execute ::
  "(string \<rightharpoonup> named_query_entry) \<Rightarrow> nat \<Rightarrow> 'r collaborators \<Rightarrow> query_request
     \<Rightarrow> 'r query_outcome \<times> engine_call list" where
  "execute catalog max_length c request =
     (case dispatch catalog max_length request of
        Inl kind \<Rightarrow> (Failure kind (message c kind), [])
      | Inr sql \<Rightarrow>
          (case submit c sql of
             None \<Rightarrow> (Failure TransportError (message c TransportError), [Submit sql])
           | Some handle \<Rightarrow>
               (case await_results c handle of
                  (outcome, calls) \<Rightarrow> (outcome, Submit sql # calls))))"

section \<open>Facts about the loop of \<^verbatim>\<open>execute_query\<close>\<close>

lemma captured_simps [simp]: "captured None = []" "captured (Some s) = s"
  by (simp_all add: captured_def)

text \<open>The three ways through one unfolding of the loop.\<close>

lemma poll_loop_exhausted:
  "\<not> attempt < max_attempts \<Longrightarrow>
     poll_loop errexit e execution_id attempt =
       ([Echo (MsgTimedOut max_attempts), Echo MsgBlank], Return 1)"
  by (simp add: poll_loop.simps [of errexit e execution_id attempt])

lemma poll_loop_stop:
  "attempt < max_attempts \<Longrightarrow> poll_iteration errexit e execution_id attempt = (evs, Stop fin) \<Longrightarrow>
     poll_loop errexit e execution_id attempt = (evs, fin)"
  by (simp add: poll_loop.simps [of errexit e execution_id attempt])

lemma poll_loop_continue:
  "attempt < max_attempts \<Longrightarrow> poll_iteration errexit e execution_id attempt = (evs, Continue) \<Longrightarrow>
     poll_loop errexit e execution_id attempt =
       (evs @ fst (poll_loop errexit e execution_id (Suc attempt)),
        snd (poll_loop errexit e execution_id (Suc attempt)))"
  by (simp add: poll_loop.simps [of errexit e execution_id attempt] split: prod.splits)

text \<open>
  Induction along the passes of the loop: a property of the result holds when it holds for
  the exhausted loop, for a pass that leaves the loop, and is carried over a pass that
  goes round again.
\<close>

lemma poll_loop_cases [case_names exhausted stop continue]:
  assumes "\<And>attempt. \<not> attempt < max_attempts \<Longrightarrow>
             P attempt ([Echo (MsgTimedOut max_attempts), Echo MsgBlank], Return 1)"
    and "\<And>attempt evs fin. attempt < max_attempts \<Longrightarrow>
             poll_iteration errexit e execution_id attempt = (evs, Stop fin) \<Longrightarrow>
             P attempt (evs, fin)"
    and "\<And>attempt evs rest fin. attempt < max_attempts \<Longrightarrow>
             poll_iteration errexit e execution_id attempt = (evs, Continue) \<Longrightarrow>
             poll_loop errexit e execution_id (Suc attempt) = (rest, fin) \<Longrightarrow>
             P (Suc attempt) (rest, fin) \<Longrightarrow> P attempt (evs @ rest, fin)"
  shows "P attempt (poll_loop errexit e execution_id attempt)"
proof (induction "max_attempts - attempt" arbitrary: attempt)
  case 0
  then have "\<not> attempt < max_attempts" by simp
  then show ?case using assms(1) by (simp add: poll_loop_exhausted)
next
  case (Suc n)
  then have less: "attempt < max_attempts" by simp
  obtain evs st where it: "poll_iteration errexit e execution_id attempt = (evs, st)"
    by (cases "poll_iteration errexit e execution_id attempt")
  show ?case
  proof (cases st)
    case Continue
    obtain rest fin where r: "poll_loop errexit e execution_id (Suc attempt) = (rest, fin)"
      by (cases "poll_loop errexit e execution_id (Suc attempt)")
    have "n = max_attempts - Suc attempt" using Suc.hyps(2) by simp
    then have "P (Suc attempt) (rest, fin)"
      using Suc.hyps(1) [of "Suc attempt"] r by simp
    then show ?thesis
      using assms(3) [OF less it [unfolded Continue] r]
      by (simp add: poll_loop_continue [OF less it [unfolded Continue]] r)
  next
    case (Stop fin)
    then show ?thesis
      using assms(2) [OF less it [unfolded Stop]]
      by (simp add: poll_loop_stop [OF less it [unfolded Stop]])
  qed
qed

text \<open>
  Every pass begins with its one status query; what follows holds no further status query
  and no terminal event, and holds the wait of two seconds exactly when the status was
  \<^verbatim>\<open>RUNNING\<close> or \<^verbatim>\<open>QUEUED\<close>. A pass goes round again only on a status that is not
  terminal.
\<close>

lemma poll_iteration_trace:
  "\<exists>tail. fst (poll_iteration errexit e execution_id attempt) =
            StateQuery execution_id (get_state e attempt) # tail
     \<and> filter is_state_query tail = []
     \<and> filter terminal_event tail = []
     \<and> pauses tail = (if in_progress (captured (get_state e attempt)) then [2] else [])"
  by (cases "get_state e attempt")
     (auto simp add: poll_iteration_def Let_def report_results_def in_progress_def)


lemma state_queries_append [simp]: "state_queries (xs @ ys) = state_queries xs + state_queries ys"
  by (simp add: state_queries_def)

lemma poll_iteration_state_queries:
  "state_queries (fst (poll_iteration errexit e execution_id attempt)) = 1"
  using poll_iteration_trace [of errexit e execution_id attempt]
  by (auto simp add: state_queries_def)

text \<open>The loop never issues more status queries than attempts are left.\<close>

lemma poll_loop_state_queries:
  "state_queries (fst (poll_loop errexit e execution_id attempt)) \<le> max_attempts - attempt"
proof (induction errexit e execution_id attempt rule: poll_loop.induct)
  case (1 errexit e execution_id attempt)
  show ?case
  proof (cases "attempt < max_attempts")
    case False
    then show ?thesis by (simp add: poll_loop_exhausted state_queries_def)
  next
    case True
    obtain evs st where it: "poll_iteration errexit e execution_id attempt = (evs, st)"
      by (cases "poll_iteration errexit e execution_id attempt")
    have one: "state_queries evs = 1"
      using poll_iteration_state_queries [of errexit e execution_id attempt] it by simp
    show ?thesis
    proof (cases st)
      case Continue
      have "state_queries (fst (poll_loop errexit e execution_id (Suc attempt)))
              \<le> max_attempts - Suc attempt"
        using "1.IH" [OF True it [symmetric] Continue] .
      then show ?thesis
        using True one by (simp add: poll_loop_continue [OF True it [unfolded Continue]])
    next
      case (Stop fin)
      then show ?thesis
        using True one by (simp add: poll_loop_stop [OF True it [unfolded Stop]])
    qed
  qed
qed

subsection \<open>Waits between status queries\<close>

lemma pauses_append [simp]: "pauses (xs @ ys) = pauses xs @ pauses ys"
  by (induction xs rule: pauses.induct) simp_all

lemma until_next_poll_quiet:
  "filter is_state_query xs = [] \<Longrightarrow> until_next_poll (xs @ ys) = xs @ until_next_poll ys"
  by (induction xs) (auto simp add: until_next_poll_def split: if_splits)

lemma evenly_spaced_quiet:
  "filter is_state_query xs = [] \<Longrightarrow>
     evenly_spaced waits n (xs @ ys) = evenly_spaced waits n ys"
proof (induction xs)
  case Nil
  then show ?case by simp
next
  case (Cons x xs)
  then show ?case by (cases x) (simp_all split: if_splits)
qed

lemma poll_loop_starts_with_query:
  "pauses (until_next_poll (fst (poll_loop errexit e execution_id attempt))) = []"
proof (cases "attempt < max_attempts")
  case False
  then show ?thesis by (simp add: poll_loop_exhausted until_next_poll_def)
next
  case True
  obtain evs st where it: "poll_iteration errexit e execution_id attempt = (evs, st)"
    by (cases "poll_iteration errexit e execution_id attempt")
  obtain tail where "evs = StateQuery execution_id (get_state e attempt) # tail"
    using poll_iteration_trace [of errexit e execution_id attempt] it by auto
  then show ?thesis
    using True it
    by (cases st) (simp_all add: poll_loop_continue poll_loop_stop until_next_poll_def)
qed

lemma poll_iteration_spaced:
  assumes "poll_iteration errexit e execution_id attempt = (evs, st)"
    and "pauses (until_next_poll rest) = []"
    and "evenly_spaced in_progress 2 rest"
  shows "evenly_spaced in_progress 2 (evs @ rest)"
proof -
  obtain tail where tail: "evs = StateQuery execution_id (get_state e attempt) # tail"
    "filter is_state_query tail = []"
    "pauses tail = (if in_progress (captured (get_state e attempt)) then [2] else [])"
    using poll_iteration_trace [of errexit e execution_id attempt] assms(1) by auto
  show ?thesis
    using assms(2,3) tail by (simp add: until_next_poll_quiet evenly_spaced_quiet)
qed

lemma poll_loop_spaced: "evenly_spaced in_progress 2 (fst (poll_loop errexit e execution_id attempt))"
proof (rule poll_loop_cases [where P = "\<lambda>attempt r. evenly_spaced in_progress 2 (fst r)"])
  fix attempt :: nat
  show "evenly_spaced in_progress 2 (fst ([Echo (MsgTimedOut max_attempts), Echo MsgBlank], Return 1))"
    by simp
next
  fix attempt evs fin
  assume "poll_iteration errexit e execution_id attempt = (evs, Stop fin)"
  from poll_iteration_spaced [OF this, of "[]"]
  show "evenly_spaced in_progress 2 (fst (evs, fin))" by (simp add: until_next_poll_def)
next
  fix attempt evs rest fin
  assume it: "poll_iteration errexit e execution_id attempt = (evs, Continue)"
    and r: "poll_loop errexit e execution_id (Suc attempt) = (rest, fin)"
    and ih: "evenly_spaced in_progress 2 (fst (rest, fin))"
  have "pauses (until_next_poll rest) = []"
    using poll_loop_starts_with_query [of errexit e execution_id "Suc attempt"] r by simp
  from poll_iteration_spaced [OF it this] ih
  show "evenly_spaced in_progress 2 (fst (evs @ rest, fin))" by simp
qed

subsection \<open>Nothing is polled after a terminal event\<close>





subsection \<open>The function around the loop\<close>

lemma execute_query_not_started:
  "captured (start_query_execution e query) = [] \<Longrightarrow>
     execute_query errexit e query description =
       ([Echo (MsgTesting description), Echo (MsgQuery query), StartQuery query,
         Echo MsgStartFailed], Return 1)"
  by (simp add: execute_query_def)

lemma execute_query_started:
  "captured (start_query_execution e query) = execution_id \<Longrightarrow> execution_id \<noteq> [] \<Longrightarrow>
     execute_query errexit e query description =
       ([Echo (MsgTesting description), Echo (MsgQuery query), StartQuery query,
         Echo (MsgExecutionId execution_id)] @ fst (poll_loop errexit e execution_id 0),
        snd (poll_loop errexit e execution_id 0))"
  by (simp add: execute_query_def split: prod.splits)

lemma execute_query_state_queries:
  "state_queries (fst (execute_query errexit e query description)) \<le> max_attempts"
proof (cases "captured (start_query_execution e query) = []")
  case True
  then show ?thesis by (simp add: execute_query_not_started state_queries_def)
next
  case False
  then show ?thesis
    using poll_loop_state_queries [of errexit e "captured (start_query_execution e query)" 0]
    by (simp add: execute_query_started state_queries_def)
qed

subsection \<open>The result fetches\<close>

lemma results_queries_append [simp]:
  "results_queries (xs @ ys) = results_queries xs + results_queries ys"
  by (simp add: results_queries_def)

lemma poll_iteration_results_queries:
  "results_queries (fst (poll_iteration errexit e execution_id attempt)) =
     (if snd (poll_iteration errexit e execution_id attempt) = Stop (Return 0) then 2 else 0)"
  by (auto simp add: poll_iteration_def Let_def report_results_def results_queries_def
      post_increment_def)

lemma poll_loop_results_queries:
  "results_queries (fst (poll_loop errexit e execution_id attempt)) =
     (if snd (poll_loop errexit e execution_id attempt) = Return 0 then 2 else 0)"
proof (rule poll_loop_cases
    [where P = "\<lambda>attempt r. results_queries (fst r) = (if snd r = Return 0 then 2 else 0)"])
  fix attempt :: nat
  show "results_queries (fst ([Echo (MsgTimedOut max_attempts), Echo MsgBlank], Return 1)) =
          (if snd ([Echo (MsgTimedOut max_attempts), Echo MsgBlank], Return 1) = Return 0
           then 2 else 0)"
    by (simp add: results_queries_def)
next
  fix attempt evs fin
  assume "poll_iteration errexit e execution_id attempt = (evs, Stop fin)"
  then show "results_queries (fst (evs, fin)) = (if snd (evs, fin) = Return 0 then 2 else 0)"
    using poll_iteration_results_queries [of errexit e execution_id attempt] by simp
next
  fix attempt evs rest fin
  assume "poll_iteration errexit e execution_id attempt = (evs, Continue)"
    and "results_queries (fst (rest, fin)) = (if snd (rest, fin) = Return 0 then 2 else 0)"
  then show "results_queries (fst (evs @ rest, fin)) =
               (if snd (evs @ rest, fin) = Return 0 then 2 else 0)"
    using poll_iteration_results_queries [of errexit e execution_id attempt] by simp
qed

lemma poll_iteration_step_ignores_results:
  "snd (poll_iteration errexit (e\<lparr>get_query_results := answer\<rparr>) execution_id attempt) =
     snd (poll_iteration errexit e execution_id attempt)"
  by (simp add: poll_iteration_def Let_def)

lemma poll_loop_finish_ignores_results:
  "snd (poll_loop errexit (e\<lparr>get_query_results := answer\<rparr>) execution_id attempt) =
     snd (poll_loop errexit e execution_id attempt)"
proof (rule poll_loop_cases [where P = "\<lambda>attempt r.
    snd (poll_loop errexit (e\<lparr>get_query_results := answer\<rparr>) execution_id attempt) = snd r"])
  fix attempt :: nat
  assume "\<not> attempt < max_attempts"
  then show "snd (poll_loop errexit (e\<lparr>get_query_results := answer\<rparr>) execution_id attempt) =
          snd ([Echo (MsgTimedOut max_attempts), Echo MsgBlank], Return 1)"
    by (simp add: poll_loop_exhausted)
next
  fix attempt evs fin
  assume less: "attempt < max_attempts"
    and it: "poll_iteration errexit e execution_id attempt = (evs, Stop fin)"
  obtain evs' where
    "poll_iteration errexit (e\<lparr>get_query_results := answer\<rparr>) execution_id attempt
       = (evs', Stop fin)"
    using poll_iteration_step_ignores_results [of errexit answer e execution_id attempt] it
    by (cases "poll_iteration errexit (e\<lparr>get_query_results := answer\<rparr>) execution_id attempt")
       simp
  then show "snd (poll_loop errexit (e\<lparr>get_query_results := answer\<rparr>) execution_id attempt) =
          snd (evs, fin)"
    using less by (simp add: poll_loop_stop)
next
  fix attempt evs fin and rest :: "event list"
  assume less: "attempt < max_attempts"
    and it: "poll_iteration errexit e execution_id attempt = (evs, Continue)"
    and ih: "snd (poll_loop errexit (e\<lparr>get_query_results := answer\<rparr>) execution_id (Suc attempt))
               = snd (rest, fin)"
  obtain evs' where
    "poll_iteration errexit (e\<lparr>get_query_results := answer\<rparr>) execution_id attempt
       = (evs', Continue)"
    using poll_iteration_step_ignores_results [of errexit answer e execution_id attempt] it
    by (cases "poll_iteration errexit (e\<lparr>get_query_results := answer\<rparr>) execution_id attempt")
       simp
  then show "snd (poll_loop errexit (e\<lparr>get_query_results := answer\<rparr>) execution_id attempt) =
          snd (evs @ rest, fin)"
    using less ih by (simp add: poll_loop_continue)
qed

subsection \<open>The attempt budget, with and without \<^verbatim>\<open>set -e\<close>\<close>

text \<open>
  Under \<^verbatim>\<open>set -e\<close> the first pass always ends the loop: on a terminal status by
  \<^verbatim>\<open>return\<close>, otherwise by the failing \<^verbatim>\<open>((attempt++))\<close> or the failed client call.
\<close>

lemma poll_iteration_no_timeout_line:
  "Echo (MsgTimedOut n) \<notin> set (fst (poll_iteration errexit e execution_id attempt))"
  by (auto simp add: poll_iteration_def Let_def report_results_def)

lemma poll_iteration_stops_under_errexit:
  "\<exists>fin. snd (poll_iteration True e execution_id 0) = Stop fin"
  by (auto simp add: poll_iteration_def Let_def post_increment_def)

lemma poll_loop_under_errexit:
  "\<exists>fin. poll_loop True e execution_id 0 = (fst (poll_iteration True e execution_id 0), fin)"
proof -
  obtain evs st where it: "poll_iteration True e execution_id 0 = (evs, st)"
    by (cases "poll_iteration True e execution_id 0")
  then obtain fin where "st = Stop fin"
    using poll_iteration_stops_under_errexit [of e execution_id] by auto
  then show ?thesis
    using it poll_loop_stop [of 0 True e execution_id evs fin] by (simp add: max_attempts_def)
qed

text \<open>
  Without \<^verbatim>\<open>set -e\<close> the loop does what it was written for: while no terminal status
  arrives it uses up every attempt that is left, one status query each, then prints the
  timeout line and returns 1.
\<close>

lemma poll_iteration_continues_without_errexit:
  "\<not> terminal_status (captured (get_state e attempt)) \<Longrightarrow>
     snd (poll_iteration False e execution_id attempt) = Continue"
  by (auto simp add: poll_iteration_def Let_def post_increment_def terminal_status_def)

lemma budget_exhausted_without_errexit:
  assumes "\<forall>k. attempt \<le> k \<and> k < max_attempts \<longrightarrow> \<not> terminal_status (captured (get_state e k))"
  shows "snd (poll_loop False e execution_id attempt) = Return 1
         \<and> state_queries (fst (poll_loop False e execution_id attempt)) = max_attempts - attempt
         \<and> Echo (MsgTimedOut max_attempts) \<in> set (fst (poll_loop False e execution_id attempt))"
  using assms
proof (induction "max_attempts - attempt" arbitrary: attempt)
  case 0
  then have "\<not> attempt < max_attempts" by simp
  then show ?case by (simp add: poll_loop_exhausted state_queries_def)
next
  case (Suc n)
  then have less: "attempt < max_attempts" by simp
  obtain evs st where it: "poll_iteration False e execution_id attempt = (evs, st)"
    by (cases "poll_iteration False e execution_id attempt")
  have "\<not> terminal_status (captured (get_state e attempt))"
    using Suc.prems less by simp
  then have st: "st = Continue"
    using poll_iteration_continues_without_errexit [of e attempt execution_id] it by simp
  have one: "state_queries evs = 1"
    using poll_iteration_state_queries [of False e execution_id attempt] it by simp
  have "n = max_attempts - Suc attempt" using Suc.hyps(2) by simp
  moreover have "\<forall>k. Suc attempt \<le> k \<and> k < max_attempts
      \<longrightarrow> \<not> terminal_status (captured (get_state e k))"
    using Suc.prems by simp
  ultimately have ih: "snd (poll_loop False e execution_id (Suc attempt)) = Return 1
    \<and> state_queries (fst (poll_loop False e execution_id (Suc attempt)))
        = max_attempts - Suc attempt
    \<and> Echo (MsgTimedOut max_attempts) \<in> set (fst (poll_loop False e execution_id (Suc attempt)))"
    using Suc.hyps(1) [of "Suc attempt"] by simp
  show ?case
    using less one ih by (simp add: poll_loop_continue [OF less it [unfolded st]])
qed

subsection \<open>A run that returns has reached a terminal event\<close>



section \<open>Facts about the other two loops\<close>

subsection \<open>Waits between consecutive status queries\<close>

lemma waits_between_polls_quiet_prefix:
  "filter is_state_query xs = [] \<Longrightarrow>
     waits_between_polls n (xs @ ys) = waits_between_polls n ys"
proof (induction xs)
  case Nil
  then show ?case by simp
next
  case (Cons x xs)
  then show ?case by (cases x) (simp_all split: if_splits)
qed

lemma waits_between_polls_quiet: "filter is_state_query xs = [] \<Longrightarrow> waits_between_polls n xs"
  using waits_between_polls_quiet_prefix [of xs n "[]"] by simp

lemma until_next_poll_within:
  "filter is_state_query xs \<noteq> [] \<Longrightarrow> until_next_poll (xs @ ys) = until_next_poll xs"
proof -
  assume "filter is_state_query xs \<noteq> []"
  then obtain x where "x \<in> set xs" "is_state_query x"
    by (auto simp add: filter_empty_conv)
  then show ?thesis
    by (simp add: until_next_poll_def takeWhile_append1)
qed

lemma waits_between_polls_quiet_suffix:
  "filter is_state_query ys = [] \<Longrightarrow>
     waits_between_polls n (xs @ ys) = waits_between_polls n xs"
proof (induction xs)
  case Nil
  then show ?case by (simp add: waits_between_polls_quiet)
next
  case (Cons x xs)
  then show ?case
    by (cases x) (auto simp add: until_next_poll_within)
qed

text \<open>
  A pass that goes round again: its status query, then events that hold no status query
  and one wait, then a remainder that begins with the next status query or holds none.
\<close>

lemma waits_between_polls_pass:
  assumes "filter is_state_query tail = []"
    and "pauses tail = [n]"
    and "pauses (until_next_poll rest) = []"
    and "waits_between_polls n rest"
  shows "waits_between_polls n (StateQuery execution_id answer # tail @ rest)"
  using assms by (simp add: until_next_poll_quiet waits_between_polls_quiet_prefix)

subsection \<open>The test query of the Athena validation script\<close>

lemma test_query_pass_trace:
  "\<exists>tail. fst (test_query_pass errexit e execution_id i) =
            StateQuery execution_id (get_state e (i - 1)) # tail
     \<and> filter is_state_query tail = []
     \<and> (snd (test_query_pass errexit e execution_id i) = Next \<longrightarrow> pauses tail = [1])"
  by (cases "get_state e (i - 1)")
     (auto simp add: test_query_pass_def Let_def failed_command_def
        split: option.splits)

lemma test_query_loop_last:
  assumes "\<not> i < 30"
  shows "fst (test_query_loop errexit e execution_id i) =
           fst (test_query_pass errexit e execution_id i)"
proof -
  obtain evs st where "test_query_pass errexit e execution_id i = (evs, st)"
    by (cases "test_query_pass errexit e execution_id i")
  then show ?thesis
    using assms by (cases st) (simp_all add: test_query_loop.simps [of errexit e execution_id i])
qed

lemma test_query_loop_leaves:
  assumes "snd (test_query_pass errexit e execution_id i) \<noteq> Next"
  shows "fst (test_query_loop errexit e execution_id i) =
           fst (test_query_pass errexit e execution_id i)"
proof -
  obtain evs st where "test_query_pass errexit e execution_id i = (evs, st)"
    by (cases "test_query_pass errexit e execution_id i")
  then show ?thesis
    using assms by (cases st) (simp_all add: test_query_loop.simps [of errexit e execution_id i])
qed

lemma test_query_loop_next:
  assumes "i < 30" and "snd (test_query_pass errexit e execution_id i) = Next"
  shows "fst (test_query_loop errexit e execution_id i) =
           fst (test_query_pass errexit e execution_id i)
             @ fst (test_query_loop errexit e execution_id (Suc i))"
proof -
  obtain evs st where "test_query_pass errexit e execution_id i = (evs, st)"
    by (cases "test_query_pass errexit e execution_id i")
  then show ?thesis
    using assms
    by (simp add: test_query_loop.simps [of errexit e execution_id i] split: prod.splits)
qed

lemma test_query_loop_starts_with_query:
  "pauses (until_next_poll (fst (test_query_loop errexit e execution_id i))) = []"
proof -
  obtain tail where tail: "fst (test_query_pass errexit e execution_id i) =
      StateQuery execution_id (get_state e (i - 1)) # tail"
    using test_query_pass_trace [of errexit e execution_id i] by auto
  show ?thesis
  proof (cases "i < 30 \<and> snd (test_query_pass errexit e execution_id i) = Next")
    case True
    then show ?thesis by (simp add: test_query_loop_next tail until_next_poll_def)
  next
    case False
    then have "fst (test_query_loop errexit e execution_id i) =
        fst (test_query_pass errexit e execution_id i)"
      using test_query_loop_last test_query_loop_leaves by blast
    then show ?thesis by (simp add: tail until_next_poll_def)
  qed
qed

lemma test_query_loop_facts:
  "state_queries (fst (test_query_loop errexit e execution_id i)) \<le> Suc (30 - i)
   \<and> waits_between_polls 1 (fst (test_query_loop errexit e execution_id i))"
proof (induction "30 - i" arbitrary: i)
  case 0
  obtain tail where tail: "fst (test_query_pass errexit e execution_id i) =
      StateQuery execution_id (get_state e (i - 1)) # tail" "filter is_state_query tail = []"
    using test_query_pass_trace [of errexit e execution_id i] by auto
  from 0 have "\<not> i < 30" by simp
  then show ?case
    using tail by (simp add: test_query_loop_last state_queries_def waits_between_polls_quiet)
next
  case (Suc n)
  then have less: "i < 30" by simp
  obtain tail where tail: "fst (test_query_pass errexit e execution_id i) =
      StateQuery execution_id (get_state e (i - 1)) # tail" "filter is_state_query tail = []"
      "snd (test_query_pass errexit e execution_id i) = Next \<longrightarrow> pauses tail = [1]"
    using test_query_pass_trace [of errexit e execution_id i] by auto
  show ?case
  proof (cases "snd (test_query_pass errexit e execution_id i) = Next")
    case True
    have "n = 30 - Suc i" using Suc.hyps(2) by simp
    then have ih: "state_queries (fst (test_query_loop errexit e execution_id (Suc i)))
          \<le> Suc (30 - Suc i)"
      "waits_between_polls 1 (fst (test_query_loop errexit e execution_id (Suc i)))"
      using Suc.hyps(1) [of "Suc i"] by simp_all
    have spaced: "waits_between_polls 1
        (StateQuery execution_id (get_state e (i - 1))
           # tail @ fst (test_query_loop errexit e execution_id (Suc i)))"
      using tail True ih(2) test_query_loop_starts_with_query [of errexit e execution_id "Suc i"]
      by (intro waits_between_polls_pass) simp_all
    have unfolded: "fst (test_query_loop errexit e execution_id i) =
        StateQuery execution_id (get_state e (i - 1))
          # tail @ fst (test_query_loop errexit e execution_id (Suc i))"
      using test_query_loop_next [OF less True] tail(1) by simp
    have "state_queries (fst (test_query_loop errexit e execution_id i)) =
        Suc (state_queries (fst (test_query_loop errexit e execution_id (Suc i))))"
      using tail(2) by (simp add: unfolded state_queries_def)
    then have "state_queries (fst (test_query_loop errexit e execution_id i)) \<le> Suc (30 - i)"
      using ih(1) less by arith
    then show ?thesis using spaced by (simp only: unfolded simp_thms)
  next
    case False
    then show ?thesis
      using tail by (simp add: test_query_loop_leaves state_queries_def waits_between_polls_quiet)
  qed
qed

lemma test_query_wait_facts:
  "state_queries (fst (test_query_wait errexit e execution_id)) \<le> 30
   \<and> waits_between_polls 1 (fst (test_query_wait errexit e execution_id))"
proof -
  obtain evs i running where loop: "test_query_loop errexit e execution_id 1 = (evs, i, running)"
    by (cases "test_query_loop errexit e execution_id 1")
  have "state_queries evs \<le> 30" "waits_between_polls 1 evs"
    using test_query_loop_facts [of errexit e execution_id 1] loop by simp_all
  then show ?thesis
    unfolding test_query_wait_def loop
    by (simp add: state_queries_def waits_between_polls_quiet_suffix)
qed

subsection \<open>The test query of \<^verbatim>\<open>test_athena_workgroup\<close>\<close>

lemma workgroup_pass_trace:
  "\<exists>tail. fst (workgroup_pass e execution_id attempt) =
            StateQuery execution_id (get_state e attempt) # tail
     \<and> filter is_state_query tail = []
     \<and> (snd (workgroup_pass e execution_id attempt) = Next \<longrightarrow> pauses tail = [2])"
  by (auto simp add: workgroup_pass_def Let_def)

lemma workgroup_loop_exhausted:
  "\<not> attempt < workgroup_max_attempts \<Longrightarrow> workgroup_loop e execution_id attempt = []"
  by (simp add: workgroup_loop.simps [of e execution_id attempt])

lemma workgroup_loop_leaves:
  assumes "attempt < workgroup_max_attempts"
    and "snd (workgroup_pass e execution_id attempt) \<noteq> Next"
  shows "workgroup_loop e execution_id attempt = fst (workgroup_pass e execution_id attempt)"
proof -
  obtain evs st where "workgroup_pass e execution_id attempt = (evs, st)"
    by (cases "workgroup_pass e execution_id attempt")
  then show ?thesis
    using assms by (cases st) (simp_all add: workgroup_loop.simps [of e execution_id attempt])
qed

lemma workgroup_loop_next:
  assumes "attempt < workgroup_max_attempts"
    and "snd (workgroup_pass e execution_id attempt) = Next"
  shows "workgroup_loop e execution_id attempt =
           fst (workgroup_pass e execution_id attempt)
             @ workgroup_loop e execution_id (Suc attempt)"
proof -
  obtain evs st where "workgroup_pass e execution_id attempt = (evs, st)"
    by (cases "workgroup_pass e execution_id attempt")
  then show ?thesis
    using assms by (simp add: workgroup_loop.simps [of e execution_id attempt])
qed

lemma workgroup_loop_starts_with_query:
  "pauses (until_next_poll (workgroup_loop e execution_id attempt)) = []"
proof (cases "attempt < workgroup_max_attempts")
  case False
  then show ?thesis by (simp add: workgroup_loop_exhausted until_next_poll_def)
next
  case True
  obtain tail where tail: "fst (workgroup_pass e execution_id attempt) =
      StateQuery execution_id (get_state e attempt) # tail"
    using workgroup_pass_trace [of e execution_id attempt] by auto
  show ?thesis
    using True tail
    by (cases "snd (workgroup_pass e execution_id attempt) = Next")
       (simp_all add: workgroup_loop_next workgroup_loop_leaves until_next_poll_def)
qed

lemma workgroup_loop_facts:
  "state_queries (workgroup_loop e execution_id attempt) \<le> workgroup_max_attempts - attempt
   \<and> waits_between_polls 2 (workgroup_loop e execution_id attempt)"
proof (induction "workgroup_max_attempts - attempt" arbitrary: attempt)
  case 0
  then have "\<not> attempt < workgroup_max_attempts" by simp
  then show ?case by (simp add: workgroup_loop_exhausted state_queries_def)
next
  case (Suc n)
  then have less: "attempt < workgroup_max_attempts" by simp
  obtain tail where tail: "fst (workgroup_pass e execution_id attempt) =
      StateQuery execution_id (get_state e attempt) # tail" "filter is_state_query tail = []"
      "snd (workgroup_pass e execution_id attempt) = Next \<longrightarrow> pauses tail = [2]"
    using workgroup_pass_trace [of e execution_id attempt] by auto
  show ?case
  proof (cases "snd (workgroup_pass e execution_id attempt) = Next")
    case True
    have "n = workgroup_max_attempts - Suc attempt" using Suc.hyps(2) by simp
    then have ih: "state_queries (workgroup_loop e execution_id (Suc attempt))
          \<le> workgroup_max_attempts - Suc attempt"
      "waits_between_polls 2 (workgroup_loop e execution_id (Suc attempt))"
      using Suc.hyps(1) [of "Suc attempt"] by simp_all
    have spaced: "waits_between_polls 2
        (StateQuery execution_id (get_state e attempt)
           # tail @ workgroup_loop e execution_id (Suc attempt))"
      using tail True ih(2) workgroup_loop_starts_with_query [of e execution_id "Suc attempt"]
      by (intro waits_between_polls_pass) simp_all
    have unfolded: "workgroup_loop e execution_id attempt =
        StateQuery execution_id (get_state e attempt)
          # tail @ workgroup_loop e execution_id (Suc attempt)"
      using workgroup_loop_next [OF less True] tail(1) by simp
    have "state_queries (workgroup_loop e execution_id attempt) =
        Suc (state_queries (workgroup_loop e execution_id (Suc attempt)))"
      using tail(2) by (simp add: unfolded state_queries_def)
    then have "state_queries (workgroup_loop e execution_id attempt)
        \<le> workgroup_max_attempts - attempt"
      using ih(1) less by arith
    then show ?thesis using spaced by (simp only: unfolded simp_thms)
  next
    case False
    then show ?thesis
      using less tail
      by (simp add: workgroup_loop_leaves state_queries_def waits_between_polls_quiet)
  qed
qed

lemma test_athena_workgroup_facts:
  "state_queries (test_athena_workgroup e test_query) \<le> workgroup_max_attempts
   \<and> waits_between_polls 2 (test_athena_workgroup e test_query)"
  using workgroup_loop_facts [of e "or_echo (start_query_execution e test_query) ''FAILED''" 0]
  by (simp add: test_athena_workgroup_def Let_def state_queries_def)

subsection \<open>\<^verbatim>\<open>execute_query\<close> under \<^verbatim>\<open>set -e\<close>\<close>

lemma execute_query_waits_under_errexit:
  "waits_between_polls 2 (fst (execute_query True e query description))"
proof (cases "captured (start_query_execution e query) = []")
  case True
  then show ?thesis by (simp add: execute_query_not_started)
next
  case False
  obtain fin where loop: "poll_loop True e (captured (start_query_execution e query)) 0 =
      (fst (poll_iteration True e (captured (start_query_execution e query)) 0), fin)"
    using poll_loop_under_errexit by blast
  obtain tail where "fst (poll_iteration True e (captured (start_query_execution e query)) 0) =
      StateQuery (captured (start_query_execution e query)) (get_state e 0) # tail"
    "filter is_state_query tail = []"
    using poll_iteration_trace [of True e "captured (start_query_execution e query)" 0] by auto
  then show ?thesis
    using False loop by (simp add: execute_query_started waits_between_polls_quiet)
qed


section \<open>The claims\<close>

subsection \<open>Result rows and the header row\<close>

text \<open>
  Claim C1, as the code has it. \<^verbatim>\<open>execute_query\<close> reports \<^verbatim>\<open>length(ResultSet.Rows) - 1\<close>
  data rows: the first fetched row is discounted always, and nothing compares it with the
  column names. The number reported is the number of rows the rule of the specification
  would keep exactly when the first row is the duplicated header. The count is printed by
  the pass of the loop that sees \<^verbatim>\<open>SUCCEEDED\<close>, and \<^verbatim>\<open>test_data_queries\<close> reads its
  count from the second row, whatever the first row holds.
\<close>

theorem first_row_discounted_without_comparison:
  "data_rows (Some rs) = int (length (rows rs)) - 1
   \<and> (data_rows (Some rs) = int (length (spec_drop_duplicate_header (column_names rs) (rows rs)))
        \<longleftrightarrow> rows rs \<noteq> [] \<and> hd (rows rs) = column_names rs)
   \<and> (attempt < max_attempts \<and> get_state e attempt = Some ''SUCCEEDED'' \<longrightarrow>
        poll_loop errexit e execution_id attempt =
          ([StateQuery execution_id (Some ''SUCCEEDED''), Echo MsgCompleted,
            ResultsQuery execution_id, ResultsQuery execution_id,
            Echo (MsgColumns (wc_l (echo (result_info e)))),
            Echo (MsgRows (data_rows (get_query_results e))), Echo MsgBlank],
           Return 0))
   \<and> count_cell (Some \<lparr>column_names = names, rows = first # second # others\<rparr>) =
        (if second = [] then ''None'' else hd second)"
proof -
  have a: "data_rows (Some rs) = int (length (rows rs)) - 1"
    by (simp add: data_rows_def row_count_def)
  have b: "data_rows (Some rs) = int (length (spec_drop_duplicate_header (column_names rs) (rows rs)))
        \<longleftrightarrow> rows rs \<noteq> [] \<and> hd (rows rs) = column_names rs"
    by (cases "rows rs") (auto simp add: a spec_drop_duplicate_header_def)
  have c: "attempt < max_attempts \<and> get_state e attempt = Some ''SUCCEEDED'' \<longrightarrow>
        poll_loop errexit e execution_id attempt =
          ([StateQuery execution_id (Some ''SUCCEEDED''), Echo MsgCompleted,
            ResultsQuery execution_id, ResultsQuery execution_id,
            Echo (MsgColumns (wc_l (echo (result_info e)))),
            Echo (MsgRows (data_rows (get_query_results e))), Echo MsgBlank],
           Return 0)"
    by (auto intro!: poll_loop_stop simp add: poll_iteration_def report_results_def)
  have d: "count_cell (Some \<lparr>column_names = names, rows = first # second # others\<rparr>) =
        (if second = [] then ''None'' else hd second)"
    by (cases second) (simp_all add: count_cell_def)
  show ?thesis using a b c d by blast
qed

text \<open>
  The theorem at a count query: the header row and one data row, seen by the first status
  query of a run under \<^verbatim>\<open>set -e\<close>.
\<close>

theorem first_row_discounted_witness:
  "(0 < max_attempts
    \<and> get_state (scripted_engine [''SUCCEEDED''] ''SUCCEEDED'' None
         (Some \<lparr>column_names = [''_col0''], rows = [[''_col0''], [''50'']]\<rparr>)) 0
        = Some ''SUCCEEDED'')
   \<and> poll_loop True (scripted_engine [''SUCCEEDED''] ''SUCCEEDED'' None
         (Some \<lparr>column_names = [''_col0''], rows = [[''_col0''], [''50'']]\<rparr>)) ''qid-1'' 0 =
       ([StateQuery ''qid-1'' (Some ''SUCCEEDED''), Echo MsgCompleted,
         ResultsQuery ''qid-1'', ResultsQuery ''qid-1'',
         Echo (MsgColumns 1), Echo (MsgRows 1), Echo MsgBlank],
        Return 0)
   \<and> data_rows (Some \<lparr>column_names = [''_col0''], rows = [[''_col0''], [''50'']]\<rparr>) =
       int (length (spec_drop_duplicate_header [''_col0''] [[''_col0''], [''50'']]))"
proof -
  let ?rs = "\<lparr>column_names = [''_col0''], rows = [[''_col0''], [''50'']]\<rparr>"
  let ?e = "scripted_engine [''SUCCEEDED''] ''SUCCEEDED'' None (Some ?rs)"
  have h: "0 < max_attempts \<and> get_state ?e 0 = Some ''SUCCEEDED''"
    by (simp add: max_attempts_def scripted_engine_def)
  have evaluated: "wc_l (echo (result_info ?e)) = 1" "data_rows (get_query_results ?e) = 1"
    by (simp_all add: wc_l_def echo_def echo_option_def result_info_def
        command_substitution_def data_rows_def row_count_def scripted_engine_def)
  show ?thesis
    using first_row_discounted_without_comparison
            [of ?rs 0 ?e True "''qid-1''" "[]" "[]" "[]" "[]"] h evaluated
    by simp
qed

text \<open>
  The claim as the specification states it fails where the first row is data: a result
  whose only row is the table name \<^verbatim>\<open>customers\<close> under the column \<^verbatim>\<open>tab_name\<close> is
  reported with 0 data rows, while the rule of the specification keeps the row.
\<close>

theorem header_rule_counterexample:
  "execute_query True
     (scripted_engine [''SUCCEEDED''] ''SUCCEEDED'' None
        (Some \<lparr>column_names = [''tab_name''], rows = [[''customers'']]\<rparr>))
     ''SHOW TABLES'' ''demo'' =
   ([Echo (MsgTesting ''demo''), Echo (MsgQuery ''SHOW TABLES''), StartQuery ''SHOW TABLES'',
     Echo (MsgExecutionId ''qid-1''), StateQuery ''qid-1'' (Some ''SUCCEEDED''),
     Echo MsgCompleted, ResultsQuery ''qid-1'', ResultsQuery ''qid-1'', Echo (MsgColumns 1),
     Echo (MsgRows 0), Echo MsgBlank],
    Return 0)
   \<and> spec_drop_duplicate_header [''tab_name''] [[''customers'']] = [[''customers'']]"
  by code_simp

subsection \<open>A status outside the known set\<close>

text \<open>
  Claim C2, as the code has it. A status outside \<^verbatim>\<open>QUEUED\<close>, \<^verbatim>\<open>RUNNING\<close>,
  \<^verbatim>\<open>SUCCEEDED\<close>, \<^verbatim>\<open>FAILED\<close>, \<^verbatim>\<open>CANCELLED\<close> is reported by every loop and is never
  retried indefinitely: a run of \<^verbatim>\<open>execute_query\<close> and a run of the test query of
  \<^verbatim>\<open>validate-athena.sh\<close> issue at most 30 status queries, the test query of
  \<^verbatim>\<open>test_athena_workgroup\<close> at most 15. The loop of \<^verbatim>\<open>test_athena_workgroup\<close> treats
  such a status as a failure at once: it prints the error line \<^verbatim>\<open>Unknown query status\<close>
  and ends. The test query of \<^verbatim>\<open>validate-athena.sh\<close> does not: it prints the status,
  waits one second and polls again, as it does for a status in progress.
  \<^verbatim>\<open>execute_query\<close> prints the line \<^verbatim>\<open>Unknown status\<close> and counts the attempt with
  \<^verbatim>\<open>((attempt++))\<close>.
\<close>

theorem unknown_status_reported_and_bounded:
  "state_queries (fst (execute_query errexit e query description)) \<le> max_attempts
   \<and> state_queries (fst (test_query_wait errexit e execution_id)) \<le> 30
   \<and> state_queries (test_athena_workgroup e query) \<le> workgroup_max_attempts
   \<and> (\<not> known_status (or_echo (get_state e attempt) ''ERROR'') \<longrightarrow>
      workgroup_pass e execution_id attempt =
        ([StateQuery execution_id (get_state e attempt),
          Echo (MsgUnknownQueryStatus (or_echo (get_state e attempt) ''ERROR''))],
         Break))
   \<and> (\<not> known_status (captured (get_state e (i - 1)))
        \<and> \<not> (errexit \<and> get_state e (i - 1) = None) \<longrightarrow>
      test_query_pass errexit e execution_id i =
        ([StateQuery execution_id (get_state e (i - 1)),
          Echo (MsgWaiting (captured (get_state e (i - 1))) i), Sleep 1],
         Next))
   \<and> (\<not> known_status (captured (get_state e attempt))
        \<and> \<not> (errexit \<and> get_state e attempt = None) \<longrightarrow>
      poll_iteration errexit e execution_id attempt =
        ([StateQuery execution_id (get_state e attempt),
          Echo (MsgUnknown (captured (get_state e attempt)))],
         post_increment errexit attempt))"
proof -
  have bounds: "state_queries (fst (execute_query errexit e query description)) \<le> max_attempts"
    "state_queries (fst (test_query_wait errexit e execution_id)) \<le> 30"
    "state_queries (test_athena_workgroup e query) \<le> workgroup_max_attempts"
    using execute_query_state_queries [of errexit e query description]
      test_query_wait_facts [of errexit e execution_id]
      test_athena_workgroup_facts [of e query]
    by simp_all
  have workgroup: "\<not> known_status (or_echo (get_state e attempt) ''ERROR'') \<longrightarrow>
      workgroup_pass e execution_id attempt =
        ([StateQuery execution_id (get_state e attempt),
          Echo (MsgUnknownQueryStatus (or_echo (get_state e attempt) ''ERROR''))],
         Break)"
    by (auto simp add: workgroup_pass_def Let_def known_status_def terminal_status_def
        in_progress_def)
  have test_query: "\<not> known_status (captured (get_state e (i - 1)))
        \<and> \<not> (errexit \<and> get_state e (i - 1) = None) \<longrightarrow>
      test_query_pass errexit e execution_id i =
        ([StateQuery execution_id (get_state e (i - 1)),
          Echo (MsgWaiting (captured (get_state e (i - 1))) i), Sleep 1],
         Next)"
    by (auto simp add: test_query_pass_def Let_def known_status_def terminal_status_def)
  have validation: "\<not> known_status (captured (get_state e attempt))
        \<and> \<not> (errexit \<and> get_state e attempt = None) \<longrightarrow>
      poll_iteration errexit e execution_id attempt =
        ([StateQuery execution_id (get_state e attempt),
          Echo (MsgUnknown (captured (get_state e attempt)))],
         post_increment errexit attempt)"
    by (auto simp add: poll_iteration_def Let_def known_status_def terminal_status_def
        in_progress_def)
  show ?thesis using bounds workgroup test_query validation by blast
qed

text \<open>
  The theorem at an engine that answers \<^verbatim>\<open>WEIRD\<close> first and \<^verbatim>\<open>SUCCEEDED\<close> next, each
  script under its \<^verbatim>\<open>set -e\<close>: the first pass of each loop.
\<close>

theorem unknown_status_witness:
  "(\<not> known_status ''WEIRD''
    \<and> get_state (scripted_engine [''WEIRD'', ''SUCCEEDED''] ''SUCCEEDED'' None None) 0
        = Some ''WEIRD'')
   \<and> workgroup_pass (scripted_engine [''WEIRD'', ''SUCCEEDED''] ''SUCCEEDED'' None None)
        ''qid-1'' 0 =
       ([StateQuery ''qid-1'' (Some ''WEIRD''), Echo (MsgUnknownQueryStatus ''WEIRD'')], Break)
   \<and> test_query_pass True (scripted_engine [''WEIRD'', ''SUCCEEDED''] ''SUCCEEDED'' None None)
        ''qid-1'' 1 =
       ([StateQuery ''qid-1'' (Some ''WEIRD''), Echo (MsgWaiting ''WEIRD'' 1), Sleep 1], Next)
   \<and> poll_iteration True
        (scripted_engine [''WEIRD'', ''SUCCEEDED''] ''SUCCEEDED'' None None) ''qid-1'' 0 =
       ([StateQuery ''qid-1'' (Some ''WEIRD''), Echo (MsgUnknown ''WEIRD'')],
        post_increment True 0)
   \<and> state_queries (fst (test_query_wait True
        (scripted_engine [''WEIRD'', ''SUCCEEDED''] ''SUCCEEDED'' None None) ''qid-1'')) \<le> 30"
proof -
  let ?e = "scripted_engine [''WEIRD'', ''SUCCEEDED''] ''SUCCEEDED'' None None"
  have answer: "get_state ?e 0 = Some ''WEIRD''" "get_state ?e (1 - 1) = Some ''WEIRD''"
    by (simp_all add: scripted_engine_def)
  have unknown: "\<not> known_status ''WEIRD''"
    by (simp add: known_status_def terminal_status_def in_progress_def)
  show ?thesis
    using unknown_status_reported_and_bounded
            [of True ?e "''SELECT 1''" "''demo''" "''qid-1''" 0 1] answer unknown
    by (simp add: or_echo_def)
qed

text \<open>
  The claim as the specification states it fails in the test query of
  \<^verbatim>\<open>validate-athena.sh\<close>: on that engine the script, run as written, waits a second on
  the unknown status, polls again and ends with the results of the query.
\<close>

theorem unknown_status_counterexample:
  "test_query_wait True
     (scripted_engine [''WEIRD'', ''SUCCEEDED''] ''SUCCEEDED'' None
        (Some \<lparr>column_names = [''tab_name''], rows = [[''customers'']]\<rparr>)) ''qid-1'' =
   ([StateQuery ''qid-1'' (Some ''WEIRD''), Echo (MsgWaiting ''WEIRD'' 1), Sleep 1,
     StateQuery ''qid-1'' (Some ''SUCCEEDED''), Echo MsgTestCompleted, Echo MsgQueryResults,
     ResultsQuery ''qid-1'', Echo (MsgResults [''customers''])],
    True)"
  by code_simp

subsection \<open>The attempt budget and the timeout\<close>

text \<open>
  Claim C3. \<^verbatim>\<open>execute_query\<close> is written to poll at most 30 times, two seconds apart, and
  to report a timeout when no terminal status has arrived by then; lemma
  \<open>budget_exhausted_without_errexit\<close> shows that the loop does so in a shell without
  \<^verbatim>\<open>set -e\<close>. The script sets \<^verbatim>\<open>set -e\<close>, and there the attempt counter is advanced by
  \<^verbatim>\<open>((attempt++))\<close>, which fails when the counter is 0: the first status that is not
  terminal ends the whole script after one status query and one wait. No engine makes
  the run report a timeout, and an execution that never leaves \<^verbatim>\<open>RUNNING\<close> ends with
  the shell's exit, not with the timeout line and the return status 1. The loop does
  end, and within its budget; it is the timeout result that is never delivered.
\<close>

theorem timeout_never_reported_under_errexit:
  "Echo (MsgTimedOut n) \<notin> set (fst (execute_query True e query description))
   \<and> state_queries (fst (execute_query True e query description)) \<le> 1
   \<and> execute_query True (scripted_engine [] ''RUNNING'' None None) ''SELECT 1'' ''demo'' =
       ([Echo (MsgTesting ''demo''), Echo (MsgQuery ''SELECT 1''), StartQuery ''SELECT 1'',
         Echo (MsgExecutionId ''qid-1''), StateQuery ''qid-1'' (Some ''RUNNING''),
         Echo (MsgStatus ''RUNNING'' 1 30), Sleep 2],
        Errexit)"
proof -
  have run: "execute_query True (scripted_engine [] ''RUNNING'' None None) ''SELECT 1'' ''demo'' =
       ([Echo (MsgTesting ''demo''), Echo (MsgQuery ''SELECT 1''), StartQuery ''SELECT 1'',
         Echo (MsgExecutionId ''qid-1''), StateQuery ''qid-1'' (Some ''RUNNING''),
         Echo (MsgStatus ''RUNNING'' 1 30), Sleep 2],
        Errexit)"
    by code_simp
  have "Echo (MsgTimedOut n) \<notin> set (fst (execute_query True e query description))
        \<and> state_queries (fst (execute_query True e query description)) \<le> 1"
  proof (cases "captured (start_query_execution e query) = []")
    case True
    then show ?thesis by (simp add: execute_query_not_started state_queries_def)
  next
    case False
    obtain fin where "poll_loop True e (captured (start_query_execution e query)) 0 =
        (fst (poll_iteration True e (captured (start_query_execution e query)) 0), fin)"
      using poll_loop_under_errexit by blast
    then show ?thesis
      using False poll_iteration_no_timeout_line
        [of n True e "captured (start_query_execution e query)" 0]
        poll_iteration_state_queries [of True e "captured (start_query_execution e query)" 0]
      by (simp add: execute_query_started state_queries_def)
  qed
  then show ?thesis using run by blast
qed

text \<open>
  For comparison, the same engine in a shell without \<^verbatim>\<open>set -e\<close>, and in the loop of
  \<^verbatim>\<open>test_athena_workgroup\<close>, which advances its counter by an assignment: thirty status
  queries and the timeout, and fifteen status queries, after which that loop just ends.
\<close>

lemma running_query_without_errexit:
  "snd (execute_query False (scripted_engine [] ''RUNNING'' None None) ''SELECT 1'' ''demo'')
     = Return 1
   \<and> state_queries
       (fst (execute_query False (scripted_engine [] ''RUNNING'' None None) ''SELECT 1'' ''demo''))
     = 30
   \<and> state_queries
       (test_athena_workgroup (scripted_engine [] ''RUNNING'' None None) ''SELECT 1'')
     = 15"
  by code_simp

subsection \<open>After a terminal state\<close>



subsection \<open>The reason of a failure\<close>

text \<open>
  Claim C5, as the code has it. On \<^verbatim>\<open>FAILED\<close>, \<^verbatim>\<open>execute_query\<close> fetches the engine's
  \<^verbatim>\<open>StateChangeReason\<close> and prints it unchanged in the line \<^verbatim>\<open>Query failed: ...\<close>
  before it returns 1. On \<^verbatim>\<open>CANCELLED\<close> it prints the fixed line
  \<^verbatim>\<open>Query was cancelled\<close> and returns 1; the reason is not fetched. The test query of
  \<^verbatim>\<open>validate-athena.sh\<close> prints the status and the reason in both cases.
\<close>

theorem failure_reason_printed_for_failed_only:
  "(attempt < max_attempts \<and> get_state e attempt = Some ''FAILED'' \<longrightarrow>
      poll_loop errexit e execution_id attempt =
        ([StateQuery execution_id (Some ''FAILED''), ReasonQuery execution_id,
          Echo (MsgFailed (captured (get_state_change_reason e))), Echo MsgBlank],
         Return 1))
   \<and> (attempt < max_attempts \<and> get_state e attempt = Some ''CANCELLED'' \<longrightarrow>
      poll_loop errexit e execution_id attempt =
        ([StateQuery execution_id (Some ''CANCELLED''), Echo MsgCancelled, Echo MsgBlank],
         Return 1))
   \<and> ((status = ''FAILED'' \<or> status = ''CANCELLED'') \<and> get_state e (i - 1) = Some status
        \<and> get_state_change_reason e = Some reason \<longrightarrow>
      test_query_pass errexit e execution_id i =
        ([StateQuery execution_id (Some status), Echo (MsgFailedWithStatus status),
          ReasonQuery execution_id, Echo (MsgReason reason)],
         Break))"
  by (auto intro!: poll_loop_stop simp add: poll_iteration_def test_query_pass_def)

text \<open>
  The theorem at the two failures, each with an engine that reports it to the first status
  query under \<^verbatim>\<open>set -e\<close>: a syntax error, and a cancellation by the user.
\<close>

theorem failure_reason_witness:
  "(0 < max_attempts
    \<and> get_state (scripted_engine [''FAILED''] ''FAILED'' (Some ''syntax error'') None) 0
         = Some ''FAILED''
    \<and> get_state
         (scripted_engine [''CANCELLED''] ''CANCELLED'' (Some ''Query cancelled by user'') None) 0
         = Some ''CANCELLED'')
   \<and> poll_loop True (scripted_engine [''FAILED''] ''FAILED'' (Some ''syntax error'') None)
        ''qid-1'' 0 =
       ([StateQuery ''qid-1'' (Some ''FAILED''), ReasonQuery ''qid-1'',
         Echo (MsgFailed ''syntax error''), Echo MsgBlank],
        Return 1)
   \<and> poll_loop True
        (scripted_engine [''CANCELLED''] ''CANCELLED'' (Some ''Query cancelled by user'') None)
        ''qid-1'' 0 =
       ([StateQuery ''qid-1'' (Some ''CANCELLED''), Echo MsgCancelled, Echo MsgBlank], Return 1)
   \<and> test_query_pass True
        (scripted_engine [''CANCELLED''] ''CANCELLED'' (Some ''Query cancelled by user'') None)
        ''qid-1'' 1 =
       ([StateQuery ''qid-1'' (Some ''CANCELLED''), Echo (MsgFailedWithStatus ''CANCELLED''),
         ReasonQuery ''qid-1'', Echo (MsgReason ''Query cancelled by user'')],
        Break)"
proof -
  let ?failed = "scripted_engine [''FAILED''] ''FAILED'' (Some ''syntax error'') None"
  let ?cancelled =
    "scripted_engine [''CANCELLED''] ''CANCELLED'' (Some ''Query cancelled by user'') None"
  have h: "0 < max_attempts" "get_state ?failed 0 = Some ''FAILED''"
    "get_state ?cancelled 0 = Some ''CANCELLED''"
    "get_state ?cancelled (1 - 1) = Some ''CANCELLED''"
    "get_state_change_reason ?failed = Some ''syntax error''"
    "get_state_change_reason ?cancelled = Some ''Query cancelled by user''"
    by (simp_all add: max_attempts_def scripted_engine_def)
  show ?thesis
    using failure_reason_printed_for_failed_only
            [of 0 ?failed True "''qid-1''" "''FAILED''" 1 "''syntax error''"]
          failure_reason_printed_for_failed_only
            [of 0 ?cancelled True "''qid-1''" "''CANCELLED''" 1 "''Query cancelled by user''"]
          h
    by simp
qed

text \<open>
  The claim as the specification states it fails for a cancelled execution: the reason the
  engine supplies appears nowhere in what \<^verbatim>\<open>execute_query\<close> does or prints.
\<close>

theorem cancelled_reason_counterexample:
  "execute_query True
     (scripted_engine [''CANCELLED''] ''CANCELLED'' (Some ''Query cancelled by user'') None)
     ''SELECT 1'' ''demo'' =
   ([Echo (MsgTesting ''demo''), Echo (MsgQuery ''SELECT 1''), StartQuery ''SELECT 1'',
     Echo (MsgExecutionId ''qid-1''), StateQuery ''qid-1'' (Some ''CANCELLED''),
     Echo MsgCancelled, Echo MsgBlank],
    Return 1)"
  by code_simp

subsection \<open>Fetching the results\<close>

text \<open>
  Claim C6, as the code has it. For an execution that has succeeded, \<^verbatim>\<open>execute_query\<close>
  makes exactly two \<^verbatim>\<open>get-query-results\<close> calls, one for the column names and one for the
  number of rows, and none in any other case; it passes no continuation token, paging
  being left to the command line client. What the calls return has no effect on how the
  function ends: a fetch that fails does not fail the run.
\<close>

theorem results_fetched_by_two_calls_whatever_they_return:
  "results_queries (fst (execute_query errexit e query description)) =
     (if snd (execute_query errexit e query description) = Return 0 then 2 else 0)
   \<and> snd (execute_query errexit (e\<lparr>get_query_results := answer\<rparr>) query description) =
       snd (execute_query errexit e query description)"
proof (cases "captured (start_query_execution e query) = []")
  case True
  then show ?thesis
    by (simp add: execute_query_not_started results_queries_def)
next
  case False
  then show ?thesis
    using poll_loop_results_queries [of errexit e "captured (start_query_execution e query)" 0]
      poll_loop_finish_ignores_results
        [of errexit answer e "captured (start_query_execution e query)" 0]
    by (simp add: execute_query_started results_queries_def)
qed

text \<open>
  The theorem at a count query that succeeds at the first status query, with the results
  replaced by a failed fetch.
\<close>

theorem results_fetched_witness:
  "results_queries (fst (execute_query True
      (scripted_engine [''SUCCEEDED''] ''SUCCEEDED'' None
         (Some \<lparr>column_names = [''_col0''], rows = [[''_col0''], [''50'']]\<rparr>))
      ''SELECT COUNT(*) FROM customers;'' ''demo'')) = 2
   \<and> snd (execute_query True
      ((scripted_engine [''SUCCEEDED''] ''SUCCEEDED'' None
         (Some \<lparr>column_names = [''_col0''], rows = [[''_col0''], [''50'']]\<rparr>))
       \<lparr>get_query_results := None\<rparr>)
      ''SELECT COUNT(*) FROM customers;'' ''demo'') = Return 0"
proof -
  let ?e = "scripted_engine [''SUCCEEDED''] ''SUCCEEDED'' None
         (Some \<lparr>column_names = [''_col0''], rows = [[''_col0''], [''50'']]\<rparr>)"
  have run: "snd (execute_query True ?e ''SELECT COUNT(*) FROM customers;'' ''demo'') = Return 0"
    by code_simp
  show ?thesis
    using results_fetched_by_two_calls_whatever_they_return
            [of True ?e "''SELECT COUNT(*) FROM customers;''" "''demo''" None]
    by (simp add: run)
qed

text \<open>
  The claim as the specification states it fails when the fetch fails: both calls return
  nothing, and \<^verbatim>\<open>execute_query\<close> reports one line of columns and \<open>-1\<close> data rows and
  returns 0.
\<close>

theorem failed_fetch_counterexample:
  "execute_query True (scripted_engine [''SUCCEEDED''] ''SUCCEEDED'' None None)
     ''SELECT 1'' ''demo'' =
   ([Echo (MsgTesting ''demo''), Echo (MsgQuery ''SELECT 1''), StartQuery ''SELECT 1'',
     Echo (MsgExecutionId ''qid-1''), StateQuery ''qid-1'' (Some ''SUCCEEDED''),
     Echo MsgCompleted, ResultsQuery ''qid-1'', ResultsQuery ''qid-1'', Echo (MsgColumns 1),
     Echo (MsgRows (- 1)), Echo MsgBlank],
    Return 0)"
  by code_simp

subsection \<open>The dispatcher\<close>

text \<open>
  Claim C7. For every named request whose id is not in the catalog, \<open>execute\<close> returns
  the failure \<open>NotFound\<close> and makes no engine call at all, so no submission: the request is
  not run as some default query.
\<close>

theorem unknown_named_query_not_found:
  "catalog query_id = None \<Longrightarrow>
     execute catalog max_length c (Named query_id) = (Failure NotFound (message c NotFound), [])"
  by (simp add: execute_def dispatch_def)

text \<open>
  The theorem at a catalog of one entry and the id \<^verbatim>\<open>does_not_exist\<close>, with collaborators
  that would accept any query.
\<close>

theorem unknown_named_query_witness:
  "[''top_orders'' \<mapsto>
      \<lparr>entry_id = ''top_orders'', entry_displayName = ''Top Orders'',
       entry_description = ''The 10 highest value orders'',
       entry_sqlTemplate = ''SELECT 1''\<rparr>] ''does_not_exist'' = None
   \<and> execute
       [''top_orders'' \<mapsto>
          \<lparr>entry_id = ''top_orders'', entry_displayName = ''Top Orders'',
           entry_description = ''The 10 highest value orders'',
           entry_sqlTemplate = ''SELECT 1''\<rparr>]
       10000
       \<lparr>submit = (\<lambda>sql. Some ''qid-1''),
        await_results = (\<lambda>handle. (Success (0::nat), [GetStatus handle])),
        message = (\<lambda>kind. ''rejected'')\<rparr>
       (Named ''does_not_exist'') = (Failure NotFound ''rejected'', [])"
proof -
  let ?catalog = "[''top_orders'' \<mapsto>
      \<lparr>entry_id = ''top_orders'', entry_displayName = ''Top Orders'',
       entry_description = ''The 10 highest value orders'',
       entry_sqlTemplate = ''SELECT 1''\<rparr>]"
  have absent: "?catalog ''does_not_exist'' = None" by simp
  show ?thesis
    using unknown_named_query_not_found [of ?catalog "''does_not_exist''" 10000
        "\<lparr>submit = (\<lambda>sql. Some ''qid-1''),
          await_results = (\<lambda>handle. (Success (0::nat), [GetStatus handle])),
          message = (\<lambda>kind. ''rejected'')\<rparr>"] absent
    by simp
qed

text \<open>
  Claim C8. For every custom request whose SQL is empty after trimming, or longer than the
  configured maximum, \<open>execute\<close> returns the failure \<open>InvalidRequest\<close> and makes no engine
  call; the empty SQL string is such a request.
\<close>

theorem invalid_custom_sql_rejected:
  "(trim sql = [] \<or> max_length < length sql \<longrightarrow>
      execute catalog max_length c (Custom sql) =
        (Failure InvalidRequest (message c InvalidRequest), []))
   \<and> execute catalog max_length c (Custom []) =
        (Failure InvalidRequest (message c InvalidRequest), [])"
  by (auto simp add: execute_def dispatch_def trim_def)

text \<open>
  The theorem at a request of blanks and a line break, under a maximum of 10000 characters.
\<close>

theorem invalid_custom_sql_witness:
  "trim [CHR 0x20, CHR 0x09, CHR 0x0A] = []
   \<and> execute Map.empty 10000
       \<lparr>submit = (\<lambda>sql. Some ''qid-1''),
        await_results = (\<lambda>handle. (Success (0::nat), [GetStatus handle])),
        message = (\<lambda>kind. ''rejected'')\<rparr>
       (Custom [CHR 0x20, CHR 0x09, CHR 0x0A]) = (Failure InvalidRequest ''rejected'', [])
   \<and> execute Map.empty 10000
       \<lparr>submit = (\<lambda>sql. Some ''qid-1''),
        await_results = (\<lambda>handle. (Success (0::nat), [GetStatus handle])),
        message = (\<lambda>kind. ''rejected'')\<rparr>
       (Custom []) = (Failure InvalidRequest ''rejected'', [])"
proof -
  have blank: "trim [CHR 0x20, CHR 0x09, CHR 0x0A] = []"
    by (simp add: trim_def is_whitespace_def)
  show ?thesis
    using invalid_custom_sql_rejected [of "[CHR 0x20, CHR 0x09, CHR 0x0A]" 10000 Map.empty
        "\<lparr>submit = (\<lambda>sql. Some ''qid-1''),
          await_results = (\<lambda>handle. (Success (0::nat), [GetStatus handle])),
          message = (\<lambda>kind. ''rejected'')\<rparr>"] blank
    by simp
qed

subsection \<open>One status query per pass, a fixed wait between them\<close>

text \<open>
  Claim C9. In each of the three loops a pass issues exactly one status query, one pass
  after the other, and between any two consecutive status queries of a run the script
  waits its fixed interval, once: one second in the test query of
  \<^verbatim>\<open>validate-athena.sh\<close>, two seconds in the test query of \<^verbatim>\<open>test_athena_workgroup\<close>
  and in \<^verbatim>\<open>execute_query\<close>. For \<^verbatim>\<open>execute_query\<close> the wait of two seconds follows
  every status query answered \<^verbatim>\<open>QUEUED\<close> or \<^verbatim>\<open>RUNNING\<close>, with and without
  \<^verbatim>\<open>set -e\<close>; as the script is written, no run of it gets as far as a second status
  query.
\<close>

theorem status_queries_one_per_pass_and_spaced:
  "state_queries (fst (poll_iteration errexit e execution_id attempt)) = 1
   \<and> state_queries (fst (test_query_pass errexit e execution_id i)) = 1
   \<and> state_queries (fst (workgroup_pass e execution_id attempt)) = 1
   \<and> evenly_spaced in_progress 2 (fst (execute_query errexit e query description))
   \<and> waits_between_polls 2 (fst (execute_query True e query description))
   \<and> waits_between_polls 1 (fst (test_query_wait errexit e execution_id))
   \<and> waits_between_polls 2 (test_athena_workgroup e query)"
proof -
  have a: "evenly_spaced in_progress 2 (fst (execute_query errexit e query description))"
  proof (cases "captured (start_query_execution e query) = []")
    case True
    then show ?thesis by (simp add: execute_query_not_started)
  next
    case False
    then show ?thesis
      using poll_loop_spaced [of errexit e "captured (start_query_execution e query)" 0]
      by (simp add: execute_query_started)
  qed
  have b: "state_queries (fst (test_query_pass errexit e execution_id i)) = 1"
    using test_query_pass_trace [of errexit e execution_id i]
    by (auto simp add: state_queries_def)
  have c: "state_queries (fst (workgroup_pass e execution_id attempt)) = 1"
    using workgroup_pass_trace [of e execution_id attempt]
    by (auto simp add: state_queries_def)
  show ?thesis
    using a b c poll_iteration_state_queries [of errexit e execution_id attempt]
      execute_query_waits_under_errexit [of e query description]
      test_query_wait_facts [of errexit e execution_id]
      test_athena_workgroup_facts [of e query]
    by blast
qed

text \<open>
  The theorem at an execution that is queued, then running, then succeeds, each script
  under its \<^verbatim>\<open>set -e\<close>: the test query of \<^verbatim>\<open>validate-athena.sh\<close> waits a second before
  its second and before its third status query, the test query of
  \<^verbatim>\<open>test_athena_workgroup\<close> two seconds, and \<^verbatim>\<open>execute_query\<close> waits two seconds after
  its one status query.
\<close>

theorem status_queries_spaced_witness:
  "test_query_wait True
     (scripted_engine [''QUEUED'', ''RUNNING'', ''SUCCEEDED''] ''SUCCEEDED'' None
        (Some \<lparr>column_names = [''tab_name''], rows = [[''customers'']]\<rparr>)) ''qid-1'' =
     ([StateQuery ''qid-1'' (Some ''QUEUED''), Echo (MsgWaiting ''QUEUED'' 1), Sleep 1,
       StateQuery ''qid-1'' (Some ''RUNNING''), Echo (MsgWaiting ''RUNNING'' 2), Sleep 1,
       StateQuery ''qid-1'' (Some ''SUCCEEDED''), Echo MsgTestCompleted, Echo MsgQueryResults,
       ResultsQuery ''qid-1'', Echo (MsgResults [''customers''])],
      True)
   \<and> waits_between_polls 1 (fst (test_query_wait True
       (scripted_engine [''QUEUED'', ''RUNNING'', ''SUCCEEDED''] ''SUCCEEDED'' None
          (Some \<lparr>column_names = [''tab_name''], rows = [[''customers'']]\<rparr>)) ''qid-1''))
   \<and> test_athena_workgroup
       (scripted_engine [''QUEUED'', ''RUNNING'', ''SUCCEEDED''] ''SUCCEEDED'' None
          (Some \<lparr>column_names = [''tab_name''], rows = [[''customers'']]\<rparr>)) ''SELECT 1'' =
     [StartQuery ''SELECT 1'', Echo (MsgTestStarted ''qid-1''),
      StateQuery ''qid-1'' (Some ''QUEUED''), Sleep 2,
      StateQuery ''qid-1'' (Some ''RUNNING''), Sleep 2,
      StateQuery ''qid-1'' (Some ''SUCCEEDED''), Echo MsgTestCompleted]
   \<and> waits_between_polls 2 (test_athena_workgroup
       (scripted_engine [''QUEUED'', ''RUNNING'', ''SUCCEEDED''] ''SUCCEEDED'' None
          (Some \<lparr>column_names = [''tab_name''], rows = [[''customers'']]\<rparr>)) ''SELECT 1'')
   \<and> execute_query True
       (scripted_engine [''QUEUED'', ''RUNNING'', ''SUCCEEDED''] ''SUCCEEDED'' None
          (Some \<lparr>column_names = [''tab_name''], rows = [[''customers'']]\<rparr>))
       ''SELECT 1'' ''demo'' =
     ([Echo (MsgTesting ''demo''), Echo (MsgQuery ''SELECT 1''), StartQuery ''SELECT 1'',
       Echo (MsgExecutionId ''qid-1''),
       StateQuery ''qid-1'' (Some ''QUEUED''), Echo (MsgStatus ''QUEUED'' 1 30), Sleep 2],
      Errexit)
   \<and> evenly_spaced in_progress 2 (fst (execute_query True
       (scripted_engine [''QUEUED'', ''RUNNING'', ''SUCCEEDED''] ''SUCCEEDED'' None
          (Some \<lparr>column_names = [''tab_name''], rows = [[''customers'']]\<rparr>))
       ''SELECT 1'' ''demo''))"
proof -
  let ?e = "scripted_engine [''QUEUED'', ''RUNNING'', ''SUCCEEDED''] ''SUCCEEDED'' None
          (Some \<lparr>column_names = [''tab_name''], rows = [[''customers'']]\<rparr>)"
  have test_query: "test_query_wait True ?e ''qid-1'' =
     ([StateQuery ''qid-1'' (Some ''QUEUED''), Echo (MsgWaiting ''QUEUED'' 1), Sleep 1,
       StateQuery ''qid-1'' (Some ''RUNNING''), Echo (MsgWaiting ''RUNNING'' 2), Sleep 1,
       StateQuery ''qid-1'' (Some ''SUCCEEDED''), Echo MsgTestCompleted, Echo MsgQueryResults,
       ResultsQuery ''qid-1'', Echo (MsgResults [''customers''])],
      True)"
    by code_simp
  have workgroup: "test_athena_workgroup ?e ''SELECT 1'' =
     [StartQuery ''SELECT 1'', Echo (MsgTestStarted ''qid-1''),
      StateQuery ''qid-1'' (Some ''QUEUED''), Sleep 2,
      StateQuery ''qid-1'' (Some ''RUNNING''), Sleep 2,
      StateQuery ''qid-1'' (Some ''SUCCEEDED''), Echo MsgTestCompleted]"
    by code_simp
  have validation: "execute_query True ?e ''SELECT 1'' ''demo'' =
     ([Echo (MsgTesting ''demo''), Echo (MsgQuery ''SELECT 1''), StartQuery ''SELECT 1'',
       Echo (MsgExecutionId ''qid-1''),
       StateQuery ''qid-1'' (Some ''QUEUED''), Echo (MsgStatus ''QUEUED'' 1 30), Sleep 2],
      Errexit)"
    by code_simp
  have spaced: "waits_between_polls 1 (fst (test_query_wait True ?e ''qid-1''))"
    "waits_between_polls 2 (test_athena_workgroup ?e ''SELECT 1'')"
    "evenly_spaced in_progress 2 (fst (execute_query True ?e ''SELECT 1'' ''demo''))"
    using status_queries_one_per_pass_and_spaced
            [of True ?e "''qid-1''" 0 1 "''SELECT 1''" "''demo''"]
    by blast+
  show ?thesis using test_query workgroup validation spaced by blast
qed

text \<open>
  For comparison, the loop of \<^verbatim>\<open>execute_query\<close> in a shell without \<^verbatim>\<open>set -e\<close>, which is
  not how the script runs: there a status outside the known set is polled again with no
  wait, so that the status queries of such a run are not evenly spaced.
\<close>

lemma unknown_status_polled_at_once_without_errexit:
  "fst (poll_loop False
     (scripted_engine [''WEIRD'', ''RUNNING'', ''SUCCEEDED''] ''SUCCEEDED'' None None)
     ''qid-1'' 0) =
   [StateQuery ''qid-1'' (Some ''WEIRD''), Echo (MsgUnknown ''WEIRD''),
    StateQuery ''qid-1'' (Some ''RUNNING''), Echo (MsgStatus ''RUNNING'' 2 30), Sleep 2,
    StateQuery ''qid-1'' (Some ''SUCCEEDED''), Echo MsgCompleted,
    ResultsQuery ''qid-1'', ResultsQuery ''qid-1'', Echo (MsgColumns 1),
    Echo (MsgRows (- 1)), Echo MsgBlank]
   \<and> \<not> waits_between_polls 2 (fst (poll_loop False
       (scripted_engine [''WEIRD'', ''RUNNING'', ''SUCCEEDED''] ''SUCCEEDED'' None None)
       ''qid-1'' 0))"
  by code_simp

subsection \<open>The catalog of named queries\<close>

text \<open>
  Claim C10. Whatever bucket and database the stack is given, \<^verbatim>\<open>AthenaStack\<close> holds exactly
  three named queries, named \<^verbatim>\<open>top_10_orders_by_total\<close>, \<^verbatim>\<open>returns_by_customer\<close> and
  \<^verbatim>\<open>orders_that_were_returned\<close>, each registered in the work group of the stack, whose
  name is \<^verbatim>\<open>lean_demo_wg\<close>; and the output \<^verbatim>\<open>NamedQueriesCount\<close> is the length of the
  stack's list of named queries in decimal, here \<^verbatim>\<open>3\<close>.
\<close>

theorem three_named_queries_in_lean_demo_wg:
  "map nq_name (namedQueries (AthenaStack props)) =
     [''top_10_orders_by_total'', ''returns_by_customer'', ''orders_that_were_returned'']
   \<and> map nq_workGroup (namedQueries (AthenaStack props)) =
     [''lean_demo_wg'', ''lean_demo_wg'', ''lean_demo_wg'']
   \<and> wg_name (workGroup (AthenaStack props)) = ''lean_demo_wg''
   \<and> length (namedQueries (AthenaStack props)) = 3
   \<and> NamedQueriesCount (AthenaStack props) = ''3''
   \<and> NamedQueriesCount stack = toString (length (namedQueries stack))"
proof -
  have three: "toString (Suc (Suc (Suc 0))) = ''3''"
    by (simp add: toString.simps [of "Suc (Suc (Suc 0))"] digit_def)
  show ?thesis
    by (simp add: AthenaStack_def topOrdersQuery_def returnsByCustomerQuery_def
        returnedOrdersQuery_def lean_analytics_work_group_def NamedQueriesCount_def three)
qed

end
